theory Spec2Isabelle
  imports Complex_Main "HOL-Library.Multiset"
begin

section \<open>Earthquake forecasting: the statistical core of final\_app.py\<close>

text \<open>
  The development embeds the class \<open>EarthquakeFuturePredictor\<close> of \<open>final_app.py\<close>:
  the region filter, the pattern analyzer, the forecast generator, the recent-activity
  summarizer and the merge of live records into the catalog.

  Conventions of the embedding.
  \<^item> A pandas \<open>Timestamp\<close> is an \<open>int\<close>: nanoseconds since 1970-01-01 00:00.
    A \<open>Timedelta\<close> is an \<open>int\<close> of nanoseconds; its \<open>.days\<close> is the floor division
    by the length of a day.
  \<^item> A Python \<open>datetime\<close> (the value of \<open>datetime.now()\<close>) is a record of its calendar
    fields. All clock reads of one call are one reading, passed as an argument.
  \<^item> Floating point numbers are real numbers: arithmetic is exact, there is no NaN and
    no infinity. Where pandas would produce NaN (the sample standard deviation of fewer
    than two values) the model says so at the place of use.
  \<^item> A DataFrame is the list of its rows, a row is a record of its columns.
  \<^item> A raised exception is \<open>Inl\<close> of an \<open>error\<close>; the result \<open>None\<close> of the source is
    \<open>Inr None\<close>.
  \<^item> The draws of the random generator are arguments.
\<close>

subsection \<open>Errors\<close>

datatype error = KeyError | ValueError | OverflowError

subsection \<open>Numbers, as Python and numpy compute them\<close>

text \<open>Python's \<open>round\<close> on a float: to the nearest integer, a tie to the even one.\<close>

definition round_half_even :: "real \<Rightarrow> int" where
  "round_half_even x =
     (let f = \<lfloor>x\<rfloor>; d = x - of_int f
      in if d < 1 / 2 then f else if 1 / 2 < d then f + 1
         else if even f then f else f + 1)"

text \<open>\<open>round(x, n)\<close>: \<open>n\<close> decimals.\<close>

definition py_round :: "real \<Rightarrow> nat \<Rightarrow> real" where
  "py_round x n = of_int (round_half_even (x * 10 ^ n)) / 10 ^ n"

text \<open>\<open>int(x)\<close> on a float truncates toward zero.\<close>

definition py_int :: "real \<Rightarrow> int" where
  "py_int x = (if 0 \<le> x then \<lfloor>x\<rfloor> else \<lceil>x\<rceil>)"

subsection \<open>Time\<close>

definition ns_per_day :: int where
  "ns_per_day = 86400000000000"

text \<open>\<open>Timedelta.days\<close>: whole days, rounded down.\<close>

definition days :: "int \<Rightarrow> int" where
  "days delta = delta div ns_per_day"

text \<open>
  \<open>timedelta(days=x)\<close>: a \<open>timedelta\<close> holds whole microseconds; the constructor
  rounds to the nearest one, a tie to the even one.
\<close>

definition timedelta :: "real \<Rightarrow> int" where
  "timedelta x = 1000 * round_half_even (x * 86400000000)"

text \<open>The proleptic Gregorian calendar of Python's \<open>datetime\<close> module.\<close>

definition is_leap :: "int \<Rightarrow> bool" where
  "is_leap y = (y mod 4 = 0 \<and> (y mod 100 \<noteq> 0 \<or> y mod 400 = 0))"

definition days_before_year :: "int \<Rightarrow> int" where
  "days_before_year y = (let p = y - 1 in p * 365 + p div 4 - p div 100 + p div 400)"

definition days_in_month :: "int \<Rightarrow> int \<Rightarrow> int" where
  "days_in_month y m =
     (if m = 2 then (if is_leap y then 29 else 28)
      else if m = 4 \<or> m = 6 \<or> m = 9 \<or> m = 11 then 30 else 31)"

definition days_before_month :: "int \<Rightarrow> int \<Rightarrow> int" where
  "days_before_month y m =
     [0, 0, 31, 59, 90, 120, 151, 181, 212, 243, 273, 304, 334] ! nat m
       + (if 2 < m \<and> is_leap y then 1 else 0)"

definition ymd2ord :: "int \<Rightarrow> int \<Rightarrow> int \<Rightarrow> int" where
  "ymd2ord y m d = days_before_year y + days_before_month y m + d"

text \<open>
  \<open>_ord2ymd\<close>: the calendar date of a day number (day 1 is 0001-01-01), by the
  400-, 100-, 4- and 1-year cycles.
\<close>

definition ord2ymd :: "int \<Rightarrow> int \<times> int \<times> int" where
  "ord2ymd ordinal =
     (let n = ordinal - 1;
          n400 = n div 146097; n = n mod 146097;
          n100 = n div 36524; n = n mod 36524;
          n4 = n div 1461; n = n mod 1461;
          n1 = n div 365; n = n mod 365;
          y = n400 * 400 + 1 + n100 * 100 + n4 * 4 + n1
      in if n1 = 4 \<or> n100 = 4 then (y - 1, 12, 31)
         else
           let leapyear = (n1 = 3 \<and> (n4 \<noteq> 24 \<or> n100 = 3));
               m = (n + 50) div 32;
               preceding = [0, 0, 31, 59, 90, 120, 151, 181, 212, 243, 273, 304, 334] ! nat m
                             + (if 2 < m \<and> leapyear then 1 else 0)
           in if n < preceding
              then
                let m' = m - 1;
                    preceding' = preceding
                      - ([0, 31, 28, 31, 30, 31, 30, 31, 31, 30, 31, 30, 31] ! nat m'
                         + (if m' = 2 \<and> leapyear then 1 else 0))
                in (y, m', n - preceding' + 1)
              else (y, m, n - preceding + 1))"

text \<open>Day number of 1970-01-01.\<close>

definition epoch_ordinal :: int where
  "epoch_ordinal = 719163"

text \<open>\<open>Timestamp.month\<close>.\<close>

definition month_of :: "int \<Rightarrow> int" where
  "month_of t = fst (snd (ord2ymd (t div ns_per_day + epoch_ordinal)))"

record datetime =
  dt_year :: int
  dt_month :: int
  dt_day :: int
  dt_micros :: int  \<comment> \<open>microseconds since midnight\<close>

text \<open>The instant of a \<open>datetime\<close>, on the scale of the timestamps.\<close>

definition to_ns :: "datetime \<Rightarrow> int" where
  "to_ns d =
     (ymd2ord (dt_year d) (dt_month d) (dt_day d) - epoch_ordinal) * ns_per_day
       + dt_micros d * 1000"

text \<open>
  \<open>d.replace(year=y, month=m, day=15)\<close>: \<open>ValueError\<close> for a year outside 1..9999 or
  a month outside 1..12 (day 15 exists in every month).
\<close>

definition replace_ymd15 :: "datetime \<Rightarrow> int \<Rightarrow> int \<Rightarrow> error + datetime" where
  "replace_ymd15 d y m =
     (if 1 \<le> y \<and> y \<le> 9999 \<and> 1 \<le> m \<and> m \<le> 12
      then Inr (d\<lparr>dt_year := y, dt_month := m, dt_day := 15\<rparr>)
      else Inl ValueError)"

subsection \<open>Series statistics, as pandas computes them\<close>

definition mean :: "real list \<Rightarrow> real" where
  "mean xs = sum_list xs / real (length xs)"

text \<open>\<open>Series.median\<close>: the middle of the sorted values, or the mean of the two middles.\<close>

definition median :: "real list \<Rightarrow> real" where
  "median xs =
     (let s = sort xs; n = length s
      in if odd n then s ! (n div 2) else (s ! (n div 2 - 1) + s ! (n div 2)) / 2)"

text \<open>
  \<open>Series.std\<close>: the sample standard deviation, with \<open>n - 1\<close> in the denominator.
  For fewer than two values pandas gives NaN; every call below that can meet that
  case tests the length first.
\<close>

definition std :: "real list \<Rightarrow> real" where
  "std xs = sqrt (sum_list (map (\<lambda>x. (x - mean xs) ^ 2) xs) / (real (length xs) - 1))"

text \<open>\<open>Series.quantile(q)\<close>: linear interpolation between the two nearest ranks.\<close>

definition quantile :: "real list \<Rightarrow> real \<Rightarrow> real" where
  "quantile xs q =
     (let s = sort xs; n = length s;
          pos = q * (real n - 1);
          lo = nat \<lfloor>pos\<rfloor>;
          frac = pos - real lo
      in if lo + 1 < n then s ! lo + (s ! (lo + 1) - s ! lo) * frac else s ! lo)"

text \<open>
  \<open>Series.value_counts().sort_index()\<close>: the values that occur, ascending, each with
  its number of occurrences. A value that does not occur has no entry.
\<close>

definition value_counts_sorted :: "int list \<Rightarrow> (int \<times> nat) list" where
  "value_counts_sorted xs =
     map (\<lambda>k. (k, length (filter (\<lambda>x. x = k) xs))) (sort (remdups xs))"

text \<open>
  \<open>counts[[k1, k2, k3]].sum()\<close> on a series indexed by integers: selection by label,
  which raises \<open>KeyError\<close> when a label is not in the index (\<open>None\<close> here).
\<close>

fun getitem_sum :: "(int \<times> nat) list \<Rightarrow> int list \<Rightarrow> nat option" where
  "getitem_sum counts [] = Some 0"
| "getitem_sum counts (k # ks) =
     (case map_of counts k of
        None \<Rightarrow> None
      | Some c \<Rightarrow> (case getitem_sum counts ks of None \<Rightarrow> None | Some s \<Rightarrow> Some (c + s)))"

text \<open>
  \<open>counts.nlargest(3).index.tolist()\<close>: the labels of the three largest counts,
  largest first, equal counts in the order of the index.
\<close>

definition nlargest3 :: "(int \<times> nat) list \<Rightarrow> int list" where
  "nlargest3 counts = map fst (take 3 (sort_key (\<lambda>kc. - int (snd kc)) counts))"

text \<open>\<open>max(d, key=d.get)\<close>: the first key, in the order of the dict, with the largest value.\<close>

fun max_by_value :: "(string \<times> nat) list \<Rightarrow> string \<times> nat" where
  "max_by_value [] = ([], 0)"
| "max_by_value [kv] = kv"
| "max_by_value (kv # rest) =
     (let b = max_by_value rest in if snd b \<le> snd kv then kv else b)"

text \<open>\<open>Series.diff().dt.days.dropna()\<close> on a column of timestamps.\<close>

fun diff_days :: "int list \<Rightarrow> int list" where
  "diff_days (a # b # ts) = days (b - a) # diff_days (b # ts)"
| "diff_days ts = []"

subsection \<open>Events and regions\<close>

record event =
  time :: int
  latitude :: real
  longitude :: real
  depth :: real
  magnitude :: real
  place :: string
  zone :: string
  year :: int
  month :: int

record region =
  lat_range :: "real \<times> real"
  lon_range :: "real \<times> real"
  name :: string

definition COUNTRY_COORDS :: "(string \<times> region) list" where
  "COUNTRY_COORDS =
    [(''India'', \<lparr>lat_range = (8, 37), lon_range = (68, 97), name = ''India''\<rparr>),
     (''Russia'', \<lparr>lat_range = (41, 82), lon_range = (19, 180), name = ''Russia''\<rparr>),
     (''Japan'', \<lparr>lat_range = (24, 46), lon_range = (123, 146), name = ''Japan''\<rparr>),
     (''Indonesia'', \<lparr>lat_range = (- 11, 6), lon_range = (95, 141), name = ''Indonesia''\<rparr>),
     (''Chile'', \<lparr>lat_range = (- 56, - 17), lon_range = (- 76, - 66), name = ''Chile''\<rparr>),
     (''Turkey'', \<lparr>lat_range = (36, 42), lon_range = (26, 45), name = ''Turkey''\<rparr>),
     (''Iran'', \<lparr>lat_range = (25, 40), lon_range = (44, 63), name = ''Iran''\<rparr>),
     (''Philippines'', \<lparr>lat_range = (4, 21), lon_range = (116, 127), name = ''Philippines''\<rparr>),
     (''Mexico'', \<lparr>lat_range = (14, 33), lon_range = (- 118, - 86), name = ''Mexico''\<rparr>),
     (''Greece'', \<lparr>lat_range = (34, 42), lon_range = (19, 30), name = ''Greece''\<rparr>),
     (''Italy'', \<lparr>lat_range = (36, 47), lon_range = (6, 19), name = ''Italy''\<rparr>),
     (''Peru'', \<lparr>lat_range = (- 18, 0), lon_range = (- 81, - 68), name = ''Peru''\<rparr>),
     (''USA-California'',
        \<lparr>lat_range = (32, 42), lon_range = (- 125, - 114), name = ''California, USA''\<rparr>),
     (''New Zealand'',
        \<lparr>lat_range = (- 47, - 34), lon_range = (166, 179), name = ''New Zealand''\<rparr>),
     (''Pakistan'', \<lparr>lat_range = (24, 37), lon_range = (61, 77), name = ''Pakistan''\<rparr>),
     (''Afghanistan'', \<lparr>lat_range = (29, 39), lon_range = (60, 75), name = ''Afghanistan''\<rparr>)]"

text \<open>
  \<open>filter_country_data\<close>: the rows inside the region's box, by ascending time; no rows
  for a name that is not in the registry.
\<close>

definition filter_country_data :: "event list \<Rightarrow> string \<Rightarrow> event list" where
  "filter_country_data data country =
     (case map_of COUNTRY_COORDS country of
        None \<Rightarrow> []
      | Some coords \<Rightarrow>
          sort_key time
            (filter (\<lambda>e. fst (lat_range coords) \<le> latitude e
                        \<and> latitude e \<le> snd (lat_range coords)
                        \<and> fst (lon_range coords) \<le> longitude e
                        \<and> longitude e \<le> snd (lon_range coords)) data))"

subsection \<open>Pattern analyzer\<close>

record consistency =
  temporal_consistency :: real
  magnitude_consistency :: real
  depth_consistency :: real
  seasonal_consistency :: real

record analysis =
  total_earthquakes :: nat
  major_earthquakes :: nat
  avg_interval_days :: real
  median_interval_days :: real
  std_interval_days :: real
  avg_interval_years :: real
  peak_months :: "int list"
  peak_season :: string
  seasonal_confidence :: real
  monthly_distribution :: "(int \<times> nat) list"
  seasonal_distribution :: "(string \<times> nat) list"
  avg_magnitude :: real
  max_magnitude :: real
  min_magnitude :: real
  magnitude_std :: real
  magnitude_trend :: real
  avg_depth :: real
  depth_std :: real
  shallow_count :: nat
  deep_count :: nat
  recent_frequency :: real
  recent_frequency_5yr :: real
  last_major_earthquake :: "int option"
  time_intervals :: "int list"
  consistency_metrics :: consistency
  data_quality_score :: int

text \<open>\<open>_assess_data_quality\<close>: four scores of at most 25 points, capped at 100.\<close>

definition assess_data_quality :: "datetime \<Rightarrow> event list \<Rightarrow> int" where
  "assess_data_quality now earthquake_data =
     (let times = map time earthquake_data;
          mags = map magnitude earthquake_data;
          span_score =
            (if 0 < length earthquake_data
             then let time_span = real_of_int (days (Max (set times) - Min (set times))) / 365.25
                  in if 50 \<le> time_span then 25 else if 20 \<le> time_span then 20
                     else if 10 \<le> time_span then 15 else 10
             else 0);
          event_count = length earthquake_data;
          count_score =
            (if 100 \<le> event_count then 25 else if 50 \<le> event_count then 20
             else if 20 \<le> event_count then 15 else 10);
          recency_score =
            (if 0 < length earthquake_data
             then let days_since_latest = days (to_ns now - Max (set times))
                  in if days_since_latest \<le> 365 then 25
                     else if days_since_latest \<le> 1825 then 20
                     else if days_since_latest \<le> 3650 then 15 else 5
             else 0);
          range_score =
            (if 0 < length earthquake_data
             then let mag_range = Max (set mags) - Min (set mags)
                  in if 3 \<le> mag_range then 25 else if 2 \<le> mag_range then 20
                     else if 1 \<le> mag_range then 15 else 10
             else 0)
      in min 100 (span_score + count_score + recency_score + range_score))"

text \<open>
  Lines 295 to 303 of \<open>analyze_earthquake_patterns\<close>: the intervals, in days, inside
  the bounds drawn from the interquartile range.
\<close>

definition iqr_filter :: "int list \<Rightarrow> int list" where
  "iqr_filter time_diffs =
     (let Q1 = quantile (map real_of_int time_diffs) 0.25;
          Q3 = quantile (map real_of_int time_diffs) 0.75;
          IQR = Q3 - Q1;
          lower_bound = max 30 (Q1 - 1.5 * IQR);
          upper_bound = min 7300 (Q3 + 1.5 * IQR)
      in filter (\<lambda>d. lower_bound \<le> real_of_int d \<and> real_of_int d \<le> upper_bound) time_diffs)"

text \<open>Lines 307 and 309: the intervals between 30 and 3650 days.\<close>

definition fixed_filter :: "int list \<Rightarrow> int list" where
  "fixed_filter time_diffs = filter (\<lambda>d. 30 \<le> d \<and> d \<le> 3650) time_diffs"

text \<open>Lines 292 to 309: the removal of outliers from the intervals.\<close>

definition filter_time_diffs :: "int list \<Rightarrow> int list" where
  "filter_time_diffs time_diffs =
     (if 3 < length time_diffs
      then
        let time_diffs_filtered = iqr_filter time_diffs
        in if real (length time_diffs_filtered) < max 3 (real (length time_diffs) * 0.5)
           then fixed_filter time_diffs
           else time_diffs_filtered
      else fixed_filter time_diffs)"

text \<open>
  Lines 334 to 339: the four seasonal sums, in the order of the dict. Each selects
  three months by label, so each needs its three months in the histogram.
\<close>

definition seasonal_sums :: "(int \<times> nat) list \<Rightarrow> (string \<times> nat) list option" where
  "seasonal_sums monthly_counts =
     (case getitem_sum monthly_counts [12, 1, 2] of
        None \<Rightarrow> None
      | Some winter \<Rightarrow>
     (case getitem_sum monthly_counts [3, 4, 5] of
        None \<Rightarrow> None
      | Some spring \<Rightarrow>
     (case getitem_sum monthly_counts [6, 7, 8] of
        None \<Rightarrow> None
      | Some summer \<Rightarrow>
     (case getitem_sum monthly_counts [9, 10, 11] of
        None \<Rightarrow> None
      | Some autumn \<Rightarrow>
          Some [(''winter'', winter), (''spring'', spring),
                (''summer'', summer), (''autumn'', autumn)]))))"

text \<open>
  \<open>rows.groupby('year')['magnitude'].mean().mean()\<close>: the mean, over the years that
  occur, of the mean magnitude of each year.
\<close>

definition yearly_mean_magnitude :: "event list \<Rightarrow> real" where
  "yearly_mean_magnitude rows =
     mean (map (\<lambda>y. mean (map magnitude (filter (\<lambda>e. year e = y) rows)))
               (sort (remdups (map year rows))))"

text \<open>
  Lines 314 to 331 and 340 to 408: the statistics of the record that is returned.
  \<open>significant\<close> is sorted by time and has passed the gates; \<open>seasonal_analysis\<close> holds
  the four sums.
\<close>

definition pattern_statistics ::
  "datetime \<Rightarrow> event list \<Rightarrow> nat \<Rightarrow> int list \<Rightarrow> (int \<times> nat) list
     \<Rightarrow> (string \<times> nat) list \<Rightarrow> int \<Rightarrow> analysis" where
  "pattern_statistics now significant n_major time_diffs_filtered monthly_counts
       seasonal_analysis quality =
     (let avg_interval = mean (map real_of_int time_diffs_filtered);
          median_interval = median (map real_of_int time_diffs_filtered);
          std_interval = std (map real_of_int time_diffs_filtered);
          counts = map (\<lambda>kc. real (snd kc)) monthly_counts;
          peak_threshold = mean counts + std counts * 0.5;
          \<comment> \<open>one month only: the deviation is NaN and no comparison with it holds\<close>
          peak_months0 =
            (if length monthly_counts < 2 then []
             else map fst (filter (\<lambda>kc. peak_threshold \<le> real (snd kc)) monthly_counts));
          peak_months = (if length peak_months0 = 0 then nlargest3 monthly_counts else peak_months0);
          peak = max_by_value seasonal_analysis;
          total_seasonal = sum_list (map snd seasonal_analysis);
          seasonal_conf =
            (if 0 < total_seasonal then real (snd peak) / real total_seasonal else 0.25);
          recent_data_5yr = filter (\<lambda>e. dt_year now - 5 \<le> year e) significant;
          recent_data_20yr = filter (\<lambda>e. dt_year now - 20 \<le> year e) significant;
          recent_freq =
            (if 0 < length recent_data_20yr then real (length recent_data_20yr) / 20 else 0);
          recent_freq_5yr =
            (if 0 < length recent_data_5yr then real (length recent_data_5yr) / 5 else 0);
          mags = map magnitude significant;
          avg_mag = mean mags;
          mag_std = std mags;
          recent_years = filter (\<lambda>e. dt_year now - 10 \<le> year e) significant;
          mag_trend = (if 3 \<le> length recent_years then yearly_mean_magnitude recent_years else avg_mag);
          shallow_earthquakes = length (filter (\<lambda>e. depth e < 70) significant);
          deep_earthquakes = length (filter (\<lambda>e. 70 \<le> depth e) significant)
      in \<lparr>total_earthquakes = length significant,
          major_earthquakes = n_major,
          avg_interval_days = avg_interval,
          median_interval_days = median_interval,
          std_interval_days = std_interval,
          avg_interval_years = avg_interval / 365.25,
          peak_months = peak_months,
          peak_season = fst peak,
          seasonal_confidence = seasonal_conf,
          monthly_distribution = monthly_counts,
          seasonal_distribution = seasonal_analysis,
          avg_magnitude = avg_mag,
          max_magnitude = Max (set mags),
          min_magnitude = Min (set mags),
          magnitude_std = mag_std,
          magnitude_trend = mag_trend,
          avg_depth = mean (map depth significant),
          depth_std = std (map depth significant),
          shallow_count = shallow_earthquakes,
          deep_count = deep_earthquakes,
          recent_frequency = recent_freq,
          recent_frequency_5yr = recent_freq_5yr,
          last_major_earthquake =
            (if 0 < length significant then Some (time (last significant)) else None),
          time_intervals = time_diffs_filtered,
          consistency_metrics =
            \<lparr>temporal_consistency = (if 0 < std_interval then 1 - std_interval / avg_interval else 0.8),
             magnitude_consistency = (if 0 < mag_std then 1 - mag_std / avg_mag else 0.8),
             depth_consistency =
               real (max shallow_earthquakes deep_earthquakes) / real (length significant),
             seasonal_consistency = seasonal_conf\<rparr>,
          data_quality_score = quality\<rparr>)"

text \<open>
  \<open>analyze_earthquake_patterns\<close>: the three gates (\<open>Inr None\<close>), the seasonal sums
  (\<open>Inl KeyError\<close> when a month is missing from the histogram), then the record.
\<close>

definition analyze_earthquake_patterns :: "datetime \<Rightarrow> event list \<Rightarrow> error + analysis option" where
  "analyze_earthquake_patterns now country_data =
     (if length country_data < 10 then Inr None
      else
        let significant = filter (\<lambda>e. 4 \<le> magnitude e) country_data;
            major = filter (\<lambda>e. 5 \<le> magnitude e) country_data
        in if length significant < 5 then Inr None
           else
             let quality = assess_data_quality now significant;
                 significant = sort_key time significant;
                 time_diffs = diff_days (map time significant);
                 time_diffs_filtered = filter_time_diffs time_diffs
             in if length time_diffs_filtered < 3 then Inr None
                else
                  let monthly_counts = value_counts_sorted (map month significant)
                  in (case seasonal_sums monthly_counts of
                       None \<Rightarrow> Inl KeyError
                     | Some seasonal_analysis \<Rightarrow>
                         Inr (Some (pattern_statistics now significant (length major)
                                      time_diffs_filtered monthly_counts seasonal_analysis quality))))"

subsection \<open>Forecast generator\<close>

record risk =
  level :: string
  description :: string

record certainty =
  data_points :: nat
  certainty_major_earthquakes :: nat
  certainty_data_quality_score :: int
  pattern_consistency :: real
  certainty_magnitude_consistency :: real
  certainty_depth_consistency :: real
  certainty_seasonal_consistency :: real
  recent_activity :: real
  recent_activity_5yr :: real

record forecast =
  predicted_date :: int
  date_range :: "int \<times> int"
  predicted_magnitude :: real
  estimated_coordinates :: "real \<times> real"
  estimated_depth :: real
  confidence_percentage :: int
  confidence_breakdown :: "(string \<times> real) list"
  confidence_penalties :: "(string \<times> real) list"
  peak_risk_months :: "int list"
  forecast_peak_season :: string
  days_since_last :: int
  expected_interval_years :: real
  pattern_strength :: string
  risk_level :: risk
  certainty_factors :: certainty

text \<open>
  What the random generator returns in one call of \<open>predict_next_earthquake\<close>:
  \<open>np.random.normal(0, s)\<close> is \<open>s\<close> times a standard normal draw, and
  \<open>np.random.uniform(a, b)\<close> is \<open>a + (b - a) * u\<close> for a uniform draw \<open>u\<close>.
\<close>

record draws =
  normal_draw :: real
  lat_draw :: real
  lon_draw :: real
  depth_draw :: real

text \<open>Lines 472 to 482: the weighted interval, in days.\<close>

definition weighted_interval_of :: "analysis \<Rightarrow> real" where
  "weighted_interval_of a =
     (let primary_interval = median_interval_days a
      in if 0 < recent_frequency a
         then let recent_interval = 365.25 / recent_frequency a
              in primary_interval * 0.6 + recent_interval * 0.4
         else primary_interval)"

text \<open>
  Lines 485 to 503: the expected date, moved into the future by whole intervals.
  A weighted interval of zero makes the quotient infinite or NaN, which \<open>int\<close> refuses.
\<close>

definition project_future :: "int \<Rightarrow> int \<Rightarrow> real \<Rightarrow> error + int" where
  "project_future current_date last_earthquake weighted_interval =
     (let expected_date = last_earthquake + timedelta weighted_interval
      in if expected_date \<le> current_date
         then
           let days_overdue = days (current_date - expected_date)
           in if weighted_interval = 0
              then Inl (if days_overdue = 0 then ValueError else OverflowError)
              else
                let cycles_overdue = real_of_int days_overdue / weighted_interval;
                    future_cycles = py_int cycles_overdue + 1;
                    expected_date =
                      expected_date + timedelta (weighted_interval * real_of_int future_cycles)
                in if days (expected_date - current_date) < 30
                   then Inr (current_date + timedelta (30 + weighted_interval))
                   else Inr expected_date
         else Inr expected_date)"

text \<open>Lines 505 to 521: the move to the 15th of the first peak month.\<close>

definition seasonal_snap :: "datetime \<Rightarrow> int list \<Rightarrow> real \<Rightarrow> int \<Rightarrow> error + int" where
  "seasonal_snap now months weighted_interval expected_date =
     (if month_of expected_date \<notin> set months \<and> 0 < length months
      then
        let target_month = months ! 0
        in (case replace_ymd15 now (dt_year now) target_month of
             Inl e \<Rightarrow> Inl e
           | Inr current_year_date \<Rightarrow>
          (case replace_ymd15 now (dt_year now + 1) target_month of
             Inl e \<Rightarrow> Inl e
           | Inr next_year_date \<Rightarrow>
               if to_ns now < to_ns current_year_date
                  \<and> real_of_int \<bar>days (to_ns current_year_date - expected_date)\<bar>
                      < weighted_interval * 0.5
               then Inr (to_ns current_year_date)
               else if real_of_int \<bar>days (to_ns next_year_date - expected_date)\<bar>
                         < weighted_interval * 0.5
               then Inr (to_ns next_year_date)
               else Inr expected_date))
      else Inr expected_date)"

text \<open>
  Lines 523 to 537: the window around the expected date, shifted as a whole when it
  does not start after the current date. The result is the expected date, the start
  and the end.
\<close>

definition uncertainty_window :: "int \<Rightarrow> real \<Rightarrow> real \<Rightarrow> real \<Rightarrow> int \<Rightarrow> int \<times> int \<times> int" where
  "uncertainty_window current_date weighted_interval std_interval avg_interval expected_date =
     (let uncertainty_factor =
            (if 0 < std_interval then min 0.3 (std_interval / avg_interval) else 0.2);
          uncertainty_days = weighted_interval * uncertainty_factor;
          date_range_start = expected_date - timedelta uncertainty_days;
          date_range_end = expected_date + timedelta uncertainty_days
      in if date_range_start \<le> current_date
         then
           let shift_days = days (current_date - date_range_start) + 1
           in (expected_date + timedelta (real_of_int shift_days),
               date_range_start + timedelta (real_of_int shift_days),
               date_range_end + timedelta (real_of_int shift_days))
         else (expected_date, date_range_start, date_range_end))"

text \<open>Lines 543 to 606: the five factors of the confidence, in the order of the dict.\<close>

definition confidence_factors_of :: "analysis \<Rightarrow> int \<Rightarrow> (string \<times> real) list" where
  "confidence_factors_of a time_since_last =
     (let std_interval = std_interval_days a;
          avg_interval = avg_interval_days a;
          data_score = min 25 (real (total_earthquakes a) / 50 * 25);
          regularity_score =
            (if 0 < std_interval
             then let coefficient_of_variation = std_interval / avg_interval
                  in if coefficient_of_variation < 0.2 then 25
                     else if coefficient_of_variation < 0.4 then 20
                     else if coefficient_of_variation < 0.6 then 15 else 10
             else 15);
          recency_score =
            (if time_since_last < 365 then 20 else if time_since_last < 1825 then 15
             else if time_since_last < 3650 then 10 else 5);
          seasonal_score =
            (if 0 < length (peak_months a) \<and> 6 < length (monthly_distribution a)
             then
               let monthly_values = map (\<lambda>kc. real (snd kc)) (monthly_distribution a);
                   max_monthly = Max (set monthly_values);
                   avg_monthly = sum_list monthly_values / real (length monthly_values)
               in if avg_monthly * 1.5 < max_monthly then 15
                  else if avg_monthly * 1.2 < max_monthly then 10 else 5
             else 5);
          total_events = shallow_count a + deep_count a;
          geo_score =
            (if 0 < total_events
             then
               let depth_consistency = real (max (shallow_count a) (deep_count a)) / real total_events
               in if 0.8 < depth_consistency then 15
                  else if 0.6 < depth_consistency then 12 else 8
             else 8)
      in [(''data_volume'', data_score),
          (''pattern_regularity'', regularity_score),
          (''data_recency'', recency_score),
          (''seasonal_pattern'', seasonal_score),
          (''geographic_consistency'', geo_score)])"

text \<open>Lines 609 to 631: the three penalties.\<close>

definition confidence_penalties_of :: "analysis \<Rightarrow> int \<Rightarrow> (string \<times> real) list" where
  "confidence_penalties_of a time_since_last =
     [(''sparse_data'',
         if total_earthquakes a < 10 then - 15 else if total_earthquakes a < 20 then - 10 else 0),
      (''high_variability'',
         if 0 < std_interval_days a \<and> 1 < std_interval_days a / avg_interval_days a
         then - 10 else 0),
      (''outdated_data'',
         if 7300 < time_since_last then - 15 else if 3650 < time_since_last then - 8 else 0)]"

text \<open>Lines 634 to 638: the sum, kept between 35 and 85.\<close>

definition clamp_confidence :: "(string \<times> real) list \<Rightarrow> (string \<times> real) list \<Rightarrow> real" where
  "clamp_confidence factors penalties =
     (let base_confidence = sum_list (map snd factors);
          confidence = base_confidence + sum_list (map snd penalties)
      in max 35 (min 85 confidence))"

text \<open>Lines 641 to 673: the magnitude, with its noise, clamped and then rounded.\<close>

definition predict_magnitude :: "analysis \<Rightarrow> real \<Rightarrow> real" where
  "predict_magnitude a z =
     (let base_magnitude = avg_magnitude a;
          mag_std = magnitude_std a;
          recent_trend = magnitude_trend a;
          trend_weight = (if recent_frequency a < recent_frequency_5yr a then 0.3 else 0.2);
          trend_adjusted_magnitude =
            (if 0.15 < \<bar>recent_trend - base_magnitude\<bar>
             then base_magnitude * (1 - trend_weight) + recent_trend * trend_weight
             else base_magnitude);
          variation_factor = (if mag_std < 0.3 then 0.2 else if mag_std < 0.6 then 0.35 else 0.5);
          predicted = trend_adjusted_magnitude + variation_factor * z;
          min_mag = max 4.0 (min_magnitude a);
          max_mag = min (max_magnitude a + 0.5) 9.5;
          predicted = max min_mag (min predicted max_mag)
      in py_round predicted 1)"

text \<open>\<open>_calculate_risk_level\<close> (the colour glyph of each level is left out).\<close>

definition calculate_risk_level :: "real \<Rightarrow> risk" where
  "calculate_risk_level m =
     (if m < 4.5 then \<lparr>level = ''Low'', description = ''Light shaking, minimal damage''\<rparr>
      else if m < 5.5 then \<lparr>level = ''Moderate'', description = ''Moderate shaking, some damage''\<rparr>
      else if m < 6.5 then \<lparr>level = ''High'', description = ''Strong shaking, considerable damage''\<rparr>
      else if m < 7.5 then \<lparr>level = ''Very High'', description = ''Severe shaking, major damage''\<rparr>
      else \<lparr>level = ''Extreme'', description = ''Violent shaking, catastrophic damage''\<rparr>)"

text \<open>
  \<open>predict_next_earthquake\<close>. No forecast (\<open>Inr None\<close>) without an analysis or without a
  last significant event; \<open>KeyError\<close> for a country that is not in the registry.
\<close>

definition predict_next_earthquake ::
  "datetime \<Rightarrow> draws \<Rightarrow> string \<Rightarrow> analysis option \<Rightarrow> error + forecast option" where
  "predict_next_earthquake now rng country analysis =
     (case analysis of
        None \<Rightarrow> Inr None
      | Some a \<Rightarrow>
     (case last_major_earthquake a of
        None \<Rightarrow> Inr None
      | Some last_earthquake \<Rightarrow>
          let weighted_interval = weighted_interval_of a;
              current_date = to_ns now
          in (case project_future current_date last_earthquake weighted_interval of
               Inl e \<Rightarrow> Inl e
             | Inr expected_date \<Rightarrow>
            (case seasonal_snap now (peak_months a) weighted_interval expected_date of
               Inl e \<Rightarrow> Inl e
             | Inr expected_date \<Rightarrow>
                 let window = uncertainty_window current_date weighted_interval
                                (std_interval_days a) (avg_interval_days a) expected_date;
                     time_since_last = days (current_date - last_earthquake);
                     confidence_factors = confidence_factors_of a time_since_last;
                     penalties = confidence_penalties_of a time_since_last;
                     confidence = clamp_confidence confidence_factors penalties;
                     magnitude_predicted = predict_magnitude a (normal_draw rng)
                 in (case map_of COUNTRY_COORDS country of
                      None \<Rightarrow> Inl KeyError
                    | Some coords \<Rightarrow>
                        let estimated_lat =
                              fst (lat_range coords)
                                + (snd (lat_range coords) - fst (lat_range coords)) * lat_draw rng;
                            estimated_lon =
                              fst (lon_range coords)
                                + (snd (lon_range coords) - fst (lon_range coords)) * lon_draw rng;
                            depth_estimated =
                              (if deep_count a < shallow_count a
                               then 5 + (70 - 5) * depth_draw rng
                               else 70 + (200 - 70) * depth_draw rng);
                            cm = consistency_metrics a
                        in Inr (Some
                             \<lparr>predicted_date = fst window,
                              date_range = snd window,
                              predicted_magnitude = magnitude_predicted,
                              estimated_coordinates = (py_round estimated_lat 2, py_round estimated_lon 2),
                              estimated_depth = py_round depth_estimated 1,
                              confidence_percentage = round_half_even confidence,
                              confidence_breakdown = confidence_factors,
                              confidence_penalties = penalties,
                              peak_risk_months = peak_months a,
                              forecast_peak_season = peak_season a,
                              days_since_last = days (current_date - last_earthquake),
                              expected_interval_years = py_round (weighted_interval / 365.25) 1,
                              pattern_strength =
                                (if 0.7 < temporal_consistency cm then ''Strong''
                                 else if 0.4 < temporal_consistency cm then ''Moderate''
                                 else ''Weak''),
                              risk_level = calculate_risk_level magnitude_predicted,
                              certainty_factors =
                                \<lparr>data_points = total_earthquakes a,
                                 certainty_major_earthquakes = major_earthquakes a,
                                 certainty_data_quality_score = data_quality_score a,
                                 pattern_consistency = py_round (temporal_consistency cm) 2,
                                 certainty_magnitude_consistency = py_round (magnitude_consistency cm) 2,
                                 certainty_depth_consistency = py_round (depth_consistency cm) 2,
                                 certainty_seasonal_consistency = py_round (seasonal_consistency cm) 2,
                                 recent_activity = recent_frequency a,
                                 recent_activity_5yr = recent_frequency_5yr a\<rparr>\<rparr>))))))"

subsection \<open>Recent-activity summarizer\<close>

record summary =
  total_recent :: nat
  significant_recent :: nat
  latest_earthquake :: "event option"
  latest_significant :: "event option"
  days_since_latest :: "int option"
  days_since_significant :: "int option"

text \<open>
  \<open>get_recent_earthquake_summary\<close>. \<open>None\<close> for a region without events; the
  all-empty record when the region has events but none in the last 365 days.
\<close>

definition get_recent_earthquake_summary :: "event list \<Rightarrow> datetime \<Rightarrow> string \<Rightarrow> summary option" where
  "get_recent_earthquake_summary data now country =
     (let country_data = filter_country_data data country
      in if length country_data = 0 then None
         else
           let current_date = to_ns now;
               one_year_ago = current_date - timedelta 365;
               recent_earthquakes = filter (\<lambda>e. one_year_ago \<le> time e) country_data;
               recent_significant = filter (\<lambda>e. 4 \<le> magnitude e) recent_earthquakes
           in if length recent_earthquakes = 0
              then Some \<lparr>total_recent = 0, significant_recent = 0,
                         latest_earthquake = None, latest_significant = None,
                         days_since_latest = None, days_since_significant = None\<rparr>
              else
                let latest = last recent_earthquakes;
                    since_latest = days (current_date - time latest);
                    all_significant = filter (\<lambda>e. 4 \<le> magnitude e) country_data;
                    found =
                      (if 0 < length recent_significant
                       then Some (last recent_significant)
                       else if 0 < length all_significant
                       then Some (last all_significant)
                       else None)
                in Some \<lparr>total_recent = length recent_earthquakes,
                         significant_recent = length recent_significant,
                         latest_earthquake = Some latest,
                         latest_significant = found,
                         days_since_latest = Some since_latest,
                         days_since_significant =
                           map_option (\<lambda>e. days (current_date - time e)) found\<rparr>)"

subsection \<open>Merging live records into the catalog\<close>

text \<open>\<open>DataFrame.drop_duplicates()\<close>: of rows equal in every column, the first is kept.\<close>

fun drop_duplicates :: "'a list \<Rightarrow> 'a list" where
  "drop_duplicates [] = []"
| "drop_duplicates (x # xs) = x # drop_duplicates (filter (\<lambda>y. y \<noteq> x) xs)"

text \<open>
  Lines 133 to 135 and 162 to 168 of \<open>_fetch_recent_earthquakes\<close>: \<open>None\<close> when the
  service returns no event; otherwise the returned records, as rows of the catalog's
  shape, that are later than the latest date of the catalog.
\<close>

definition fetch_recent_earthquakes :: "int \<Rightarrow> event list \<Rightarrow> event list option" where
  "fetch_recent_earthquakes last_date recent_records =
     (if recent_records = [] then None
      else Some (filter (\<lambda>e. last_date < time e) recent_records))"

text \<open>
  Lines 60 to 69 of \<open>load_data\<close>: the catalog after the fetch. Only when records are
  added is the catalog sorted and are duplicates dropped. An empty catalog has no
  latest date and nothing is fetched for it.
\<close>

definition load_data :: "event list \<Rightarrow> event list \<Rightarrow> event list" where
  "load_data data recent_records =
     (if data = [] then data
      else
        let latest_historical = Max (set (map time data))
        in (case fetch_recent_earthquakes latest_historical recent_records of
             None \<Rightarrow> data
           | Some recent_data \<Rightarrow>
               if 0 < length recent_data
               then drop_duplicates (sort_key time (data @ recent_data))
               else data))"

text \<open>
  The key by which the specification identifies duplicates: timestamp, latitude,
  longitude and magnitude. The code does not use it; it is the yardstick of the claim
  on merging.
\<close>

definition spec_key :: "event \<Rightarrow> int \<times> real \<times> real \<times> real" where
  "spec_key e = (time e, latitude e, longitude e, magnitude e)"

subsection \<open>Scenarios\<close>

text \<open>
  Catalogs, clock readings and draws on which the definitions are evaluated. All events
  lie in the box of Japan.
\<close>

definition quake :: "int \<Rightarrow> int \<Rightarrow> int \<Rightarrow> real \<Rightarrow> event" where
  "quake t y m mag =
     \<lparr>time = t, latitude = 35, longitude = 139, depth = 10, magnitude = mag,
      place = ''Honshu, Japan'', zone = ''pacific_ring_zone'', year = y, month = m\<rparr>"

definition steady_catalog :: "event list" where
  "steady_catalog =
     [quake 1577836800000000000 2020 1 4.04,
      quake 1580515200000000000 2020 2 4.04,
      quake 1583193600000000000 2020 3 4.04,
      quake 1585872000000000000 2020 4 4.04,
      quake 1588550400000000000 2020 5 4.04,
      quake 1591228800000000000 2020 6 4.04,
      quake 1593907200000000000 2020 7 4.04,
      quake 1596585600000000000 2020 8 4.04,
      quake 1599264000000000000 2020 9 4.04,
      quake 1601942400000000000 2020 10 4.04,
      quake 1604620800000000000 2020 11 4.04,
      quake 1607299200000000000 2020 12 4.04]"

definition now_2021 :: datetime where
  "now_2021 = \<lparr>dt_year = 2021, dt_month = 1, dt_day = 1, dt_micros = 43200000000\<rparr>"

definition now_2050 :: datetime where
  "now_2050 = \<lparr>dt_year = 2050, dt_month = 1, dt_day = 1, dt_micros = 43200000000\<rparr>"

definition rng0 :: draws where
  "rng0 = \<lparr>normal_draw = - 3 / 2, lat_draw = 1 / 2, lon_draw = 1 / 2, depth_draw = 1 / 2\<rparr>"

definition monthly_even :: "(int \<times> nat) list" where
  "monthly_even = [(1, 1), (2, 1), (3, 1), (4, 1), (5, 1), (6, 1), (7, 1), (8, 1), (9, 1),
  (10, 1), (11, 1), (12, 1)]"

definition seasons_even :: "(string \<times> nat) list" where
  "seasons_even = [(''winter'', 3), (''spring'', 3), (''summer'', 3), (''autumn'', 3)]"


definition intervals_31 :: "int list" where
  "intervals_31 = [31, 31, 31, 31, 31, 31, 31, 31, 31, 31, 31]"

definition steady_analysis :: analysis where
  "steady_analysis =
     \<lparr>total_earthquakes = 12,
      major_earthquakes = 0,
      avg_interval_days = 31,
      median_interval_days = 31,
      std_interval_days = 0,
      avg_interval_years = 31 / 365.25,
      peak_months = [1, 2, 3, 4, 5, 6, 7, 8, 9, 10, 11, 12],
      peak_season = ''winter'',
      seasonal_confidence = 0.25,
      monthly_distribution = monthly_even,
      seasonal_distribution = seasons_even,
      avg_magnitude = 4.04,
      max_magnitude = 4.04,
      min_magnitude = 4.04,
      magnitude_std = 0,
      magnitude_trend = 4.04,
      avg_depth = 10,
      depth_std = 0,
      shallow_count = 12,
      deep_count = 0,
      recent_frequency = 0,
      recent_frequency_5yr = 0,
      last_major_earthquake = Some 1607299200000000000,
      time_intervals = intervals_31,
      consistency_metrics =
        \<lparr>temporal_consistency = 0.8, magnitude_consistency = 0.8,
         depth_consistency = 1, seasonal_consistency = 0.25\<rparr>,
      data_quality_score = 35\<rparr>"

definition steady_forecast :: forecast where
  "steady_forecast =
     \<lparr>predicted_date = 2529921600000000000,
      date_range = (2529385920000000000, 2530457280000000000),
      predicted_magnitude = 4.0,
      estimated_coordinates = (35, 134.5),
      estimated_depth = 37.5,
      confidence_percentage = 35,
      confidence_breakdown =
        [(''data_volume'', 6), (''pattern_regularity'', 15), (''data_recency'', 5),
         (''seasonal_pattern'', 5), (''geographic_consistency'', 15)],
      confidence_penalties =
        [(''sparse_data'', - 10), (''high_variability'', 0), (''outdated_data'', - 15)],
      peak_risk_months = [1, 2, 3, 4, 5, 6, 7, 8, 9, 10, 11, 12],
      forecast_peak_season = ''winter'',
      days_since_last = 10617,
      expected_interval_years = 0.1,
      pattern_strength = ''Strong'',
      risk_level = \<lparr>level = ''Low'', description = ''Light shaking, minimal damage''\<rparr>,
      certainty_factors =
        \<lparr>data_points = 12,
         certainty_major_earthquakes = 0,
         certainty_data_quality_score = 35,
         pattern_consistency = 0.8,
         certainty_magnitude_consistency = 0.8,
         certainty_depth_consistency = 1,
         certainty_seasonal_consistency = 0.25,
         recent_activity = 0,
         recent_activity_5yr = 0\<rparr>\<rparr>"

text \<open>The first nine events only; the twelve events with magnitude 3.5; ten events one hour apart.\<close>

definition short_catalog :: "event list" where
  "short_catalog = take 9 steady_catalog"

definition minor_catalog :: "event list" where
  "minor_catalog = map (\<lambda>e. e\<lparr>magnitude := 3.5\<rparr>) steady_catalog"

definition burst_catalog :: "event list" where
  "burst_catalog =
     [quake 1577836800000000000 2020 1 4.5,
      quake 1577840400000000000 2020 1 4.5,
      quake 1577844000000000000 2020 1 4.5,
      quake 1577847600000000000 2020 1 4.5,
      quake 1577851200000000000 2020 1 4.5,
      quake 1577854800000000000 2020 1 4.5,
      quake 1577858400000000000 2020 1 4.5,
      quake 1577862000000000000 2020 1 4.5,
      quake 1577865600000000000 2020 1 4.5,
      quake 1577869200000000000 2020 1 4.5]"

text \<open>Twelve events of magnitude 5.0, 365 days apart, all in June.\<close>

definition june_catalog :: "event list" where
  "june_catalog =
     [quake 1276560000000000000 2010 6 5,
      quake 1308096000000000000 2011 6 5,
      quake 1339632000000000000 2012 6 5,
      quake 1371168000000000000 2013 6 5,
      quake 1402704000000000000 2014 6 5,
      quake 1434240000000000000 2015 6 5,
      quake 1465776000000000000 2016 6 5,
      quake 1497312000000000000 2017 6 5,
      quake 1528848000000000000 2018 6 5,
      quake 1560384000000000000 2019 6 5,
      quake 1591920000000000000 2020 6 5,
      quake 1623456000000000000 2021 6 5]"

definition intervals_365 :: "int list" where
  "intervals_365 = [365, 365, 365, 365, 365, 365, 365, 365, 365, 365, 365]"

text \<open>
  Twelve events of magnitude 5.0, one in each month: pairs one day apart on the last day
  of a month and the first of the next in 2010, the last event nine years later.
\<close>

definition paired_catalog :: "event list" where
  "paired_catalog =
     [quake 1264896000000000000 2010 1 5,
      quake 1264982400000000000 2010 2 5,
      quake 1269993600000000000 2010 3 5,
      quake 1270080000000000000 2010 4 5,
      quake 1275264000000000000 2010 5 5,
      quake 1275350400000000000 2010 6 5,
      quake 1280534400000000000 2010 7 5,
      quake 1280620800000000000 2010 8 5,
      quake 1285804800000000000 2010 9 5,
      quake 1285891200000000000 2010 10 5,
      quake 1291075200000000000 2010 11 5,
      quake 1575158400000000000 2019 12 5]"

definition paired_diffs :: "int list" where
  "paired_diffs = [1, 58, 1, 60, 1, 60, 1, 60, 1, 60, 3288]"

definition paired_intervals :: "int list" where
  "paired_intervals = [58, 60, 60, 60, 60, 3288]"

text \<open>The record the analyzer returns for the paired catalog.\<close>

definition paired_analysis :: analysis where
  "paired_analysis =
     pattern_statistics now_2021 paired_catalog 12 paired_intervals monthly_even seasons_even
       (assess_data_quality now_2021 paired_catalog)"

text \<open>Four intervals, of which the interquartile bounds keep two.\<close>

definition uneven_intervals :: "int list" where
  "uneven_intervals = [10, 100, 100, 1000]"

text \<open>
  An event of magnitude 5.0 on 2018-06-13, one of magnitude 3.5 on 2020-12-07, one of
  magnitude 5.0 on 2020-12-07, and one of magnitude 5.0 on 2021-01-01 that the feed
  returns twice, the second time under another place name.
\<close>

definition old_quake :: event where
  "old_quake = quake 1528848000000000000 2018 6 5"

definition recent_minor :: event where
  "recent_minor = quake 1607299200000000000 2020 12 3.5"

definition late_quake :: event where
  "late_quake = quake 1607299200000000000 2020 12 5"

definition new_quake :: event where
  "new_quake = quake 1609459200000000000 2021 1 5"

definition new_quake_renamed :: event where
  "new_quake_renamed = new_quake\<lparr>place := ''near Tokyo, Japan''\<rparr>"

section \<open>Properties\<close>

subsection \<open>Rounding and time arithmetic\<close>

lemma round_half_even_bounds:
  "of_int (round_half_even x) \<le> x + 1 / 2" "x - 1 / 2 \<le> of_int (round_half_even x)"
  unfolding round_half_even_def Let_def by (auto; linarith)+

lemma round_half_even_of_int [simp]: "round_half_even (of_int k) = k"
  by (simp add: round_half_even_def)

lemma round_half_even_ge_int:
  "of_int k \<le> x \<Longrightarrow> k \<le> round_half_even x" 
  unfolding round_half_even_def Let_def
  by (auto simp: le_floor_iff; linarith)

lemma round_half_even_le_int:
  assumes "x \<le> of_int k" shows "round_half_even x \<le> k"
proof -
  have f: "\<lfloor>x\<rfloor> \<le> k" using assms by (simp add: floor_le_iff)
  show ?thesis
  proof (cases "x = of_int \<lfloor>x\<rfloor>")
    case True
    have "round_half_even (of_int \<lfloor>x\<rfloor>) = \<lfloor>x\<rfloor>" by (rule round_half_even_of_int)
    with True have "round_half_even x = \<lfloor>x\<rfloor>" by simp
    with f show ?thesis by simp
  next
    case False
    with of_int_floor_le [of x] have "of_int \<lfloor>x\<rfloor> < x" by linarith
    with assms have "\<lfloor>x\<rfloor> < k" by linarith
    moreover have "round_half_even x \<le> \<lfloor>x\<rfloor> + 1"
      unfolding round_half_even_def Let_def by auto
    ultimately show ?thesis by linarith
  qed
qed

lemma timedelta_nonneg: "0 \<le> x \<Longrightarrow> 0 \<le> timedelta x"
  using round_half_even_ge_int [of 0 "x * 86400000000"] by (simp add: timedelta_def)

lemma timedelta_of_int: "timedelta (of_int k) = k * ns_per_day"
proof -
  have "real_of_int k * 86400000000 = of_int (k * 86400000000)" by simp
  then have "round_half_even (real_of_int k * 86400000000) = k * 86400000000"
    by (simp only: round_half_even_of_int)
  then show ?thesis by (simp add: timedelta_def ns_per_day_def)
qed

lemma days_shift: "current < start + (days (current - start) + 1) * ns_per_day"
proof -
  define d where "d = current - start"
  have "ns_per_day * (d div ns_per_day) + d mod ns_per_day = d" by (rule mult_div_mod_eq)
  moreover have "d mod ns_per_day < ns_per_day" by (simp add: ns_per_day_def)
  ultimately have "d < ns_per_day * (d div ns_per_day) + ns_per_day" by linarith
  then show ?thesis unfolding days_def d_def by (simp add: algebra_simps)
qed

lemma uncertainty_window_future:
  assumes "0 \<le> weighted_interval" "0 < avg_interval"
  shows "current_date < fst (snd (uncertainty_window current_date weighted_interval std_interval avg_interval expected_date))"
    and "fst (snd (uncertainty_window current_date weighted_interval std_interval avg_interval expected_date))
          \<le> fst (uncertainty_window current_date weighted_interval std_interval avg_interval expected_date)"
    and "fst (uncertainty_window current_date weighted_interval std_interval avg_interval expected_date)
          \<le> snd (snd (uncertainty_window current_date weighted_interval std_interval avg_interval expected_date))"
proof -
  define u where "u = weighted_interval * (if 0 < std_interval then min 0.3 (std_interval / avg_interval) else 0.2)"
  have "0 \<le> (if 0 < std_interval then min 0.3 (std_interval / avg_interval) else 0.2)"
    using assms by simp
  then have "0 \<le> u" using assms unfolding u_def by simp
  then have td: "0 \<le> timedelta u" by (rule timedelta_nonneg)
  have sh: "current_date < (expected_date - timedelta u) + (days (current_date - (expected_date - timedelta u)) + 1) * ns_per_day"
    by (rule days_shift)
  show "current_date < fst (snd (uncertainty_window current_date weighted_interval std_interval avg_interval expected_date))"
    using sh unfolding uncertainty_window_def Let_def u_def [symmetric] timedelta_of_int by simp
  show "fst (snd (uncertainty_window current_date weighted_interval std_interval avg_interval expected_date))
          \<le> fst (uncertainty_window current_date weighted_interval std_interval avg_interval expected_date)"
    using td unfolding uncertainty_window_def Let_def u_def [symmetric] by simp
  show "fst (uncertainty_window current_date weighted_interval std_interval avg_interval expected_date)
          \<le> snd (snd (uncertainty_window current_date weighted_interval std_interval avg_interval expected_date))"
    using td unfolding uncertainty_window_def Let_def u_def [symmetric] by simp
qed

lemma predict_SomeD:
  assumes "predict_next_earthquake now rng country (Some a) = Inr (Some f)"
  shows "\<exists>e. predicted_date f = fst (uncertainty_window (to_ns now) (weighted_interval_of a)
                  (std_interval_days a) (avg_interval_days a) e)
            \<and> date_range f = snd (uncertainty_window (to_ns now) (weighted_interval_of a)
                  (std_interval_days a) (avg_interval_days a) e)"
    and "predicted_magnitude f = predict_magnitude a (normal_draw rng)"
    and "\<exists>t. confidence_percentage f
            = round_half_even (clamp_confidence (confidence_factors_of a t) (confidence_penalties_of a t))"
  using assms unfolding predict_next_earthquake_def Let_def
  by (auto split: option.splits sum.splits)

lemma clamp_confidence_range: "35 \<le> clamp_confidence fs ps" "clamp_confidence fs ps \<le> 85"
  by (simp_all add: clamp_confidence_def Let_def)

subsection \<open>What the analyzer returns\<close>

lemma pattern_statistics_fields:
  "avg_interval_days (pattern_statistics now sig nm tdf mc sa q) = mean (map real_of_int tdf)"
  "median_interval_days (pattern_statistics now sig nm tdf mc sa q) = median (map real_of_int tdf)"
  "std_interval_days (pattern_statistics now sig nm tdf mc sa q) = std (map real_of_int tdf)"
  "recent_frequency (pattern_statistics now sig nm tdf mc sa q) =
     (if 0 < length (filter (\<lambda>e. dt_year now - 20 \<le> year e) sig)
      then real (length (filter (\<lambda>e. dt_year now - 20 \<le> year e) sig)) / 20 else 0)"
  "avg_magnitude (pattern_statistics now sig nm tdf mc sa q) = mean (map magnitude sig)"
  "max_magnitude (pattern_statistics now sig nm tdf mc sa q) = Max (set (map magnitude sig))"
  "min_magnitude (pattern_statistics now sig nm tdf mc sa q) = Min (set (map magnitude sig))"
  "magnitude_std (pattern_statistics now sig nm tdf mc sa q) = std (map magnitude sig)"
  "seasonal_confidence (pattern_statistics now sig nm tdf mc sa q) =
     (if 0 < sum_list (map snd sa)
      then real (snd (max_by_value sa)) / real (sum_list (map snd sa)) else 0.25)"
  by (simp_all add: pattern_statistics_def Let_def)

lemma pattern_statistics_consistency:
  "consistency_metrics (pattern_statistics now sig nm tdf mc sa q) =
     \<lparr>temporal_consistency =
        (if 0 < std (map real_of_int tdf)
         then 1 - std (map real_of_int tdf) / mean (map real_of_int tdf) else 0.8),
      magnitude_consistency =
        (if 0 < std (map magnitude sig)
         then 1 - std (map magnitude sig) / mean (map magnitude sig) else 0.8),
      depth_consistency =
        real (max (length (filter (\<lambda>e. depth e < 70) sig)) (length (filter (\<lambda>e. 70 \<le> depth e) sig)))
          / real (length sig),
      seasonal_consistency =
        (if 0 < sum_list (map snd sa)
         then real (snd (max_by_value sa)) / real (sum_list (map snd sa)) else 0.25)\<rparr>"
  by (simp add: pattern_statistics_def Let_def)

lemma analyze_SomeE:
  assumes "analyze_earthquake_patterns now country_data = Inr (Some a)"
  obtains sa where
    "10 \<le> length country_data"
    "5 \<le> length (filter (\<lambda>e. 4 \<le> magnitude e) country_data)"
    "3 \<le> length (filter_time_diffs (diff_days (map time
            (sort_key time (filter (\<lambda>e. 4 \<le> magnitude e) country_data)))))"
    "seasonal_sums (value_counts_sorted (map month
            (sort_key time (filter (\<lambda>e. 4 \<le> magnitude e) country_data)))) = Some sa"
    "a = pattern_statistics now
           (sort_key time (filter (\<lambda>e. 4 \<le> magnitude e) country_data))
           (length (filter (\<lambda>e. 5 \<le> magnitude e) country_data))
           (filter_time_diffs (diff_days (map time
              (sort_key time (filter (\<lambda>e. 4 \<le> magnitude e) country_data)))))
           (value_counts_sorted (map month
              (sort_key time (filter (\<lambda>e. 4 \<le> magnitude e) country_data))))
           sa
           (assess_data_quality now (filter (\<lambda>e. 4 \<le> magnitude e) country_data))"
  using assms unfolding analyze_earthquake_patterns_def Let_def
  by (auto split: if_splits option.splits)

lemma iqr_filter_ge_30: "d \<in> set (iqr_filter ds) \<Longrightarrow> 30 \<le> d"
  unfolding iqr_filter_def Let_def by auto

lemma filter_time_diffs_ge_30: "d \<in> set (filter_time_diffs ds) \<Longrightarrow> 30 \<le> d"
  unfolding filter_time_diffs_def fixed_filter_def Let_def
  by (auto split: if_splits dest: iqr_filter_ge_30)

lemma sum_list_ge: "\<forall>x\<in>set xs. c \<le> x \<Longrightarrow> c * real (length xs) \<le> sum_list xs"
  by (induction xs) (auto simp: algebra_simps)

lemma mean_ge:
  assumes "xs \<noteq> []" "\<forall>x\<in>set xs. c \<le> x"
  shows "c \<le> mean xs"
proof -
  have "0 < real (length xs)" using assms(1) by simp
  moreover have "c * real (length xs) \<le> sum_list xs" using assms(2) by (rule sum_list_ge)
  ultimately show ?thesis unfolding mean_def by (simp add: pos_le_divide_eq)
qed

lemma median_ge:
  assumes "xs \<noteq> []" "\<forall>x\<in>set xs. c \<le> x"
  shows "c \<le> median xs"
proof -
  define s where "s = sort xs"
  have len: "length s = length xs" unfolding s_def by simp
  have mem: "c \<le> s ! i" if "i < length s" for i
  proof -
    have "s ! i \<in> set s" using that by (rule nth_mem)
    then have "s ! i \<in> set xs" unfolding s_def by simp
    with assms(2) show ?thesis by blast
  qed
  have pos: "0 < length s" using assms(1) len by simp
  show ?thesis
  proof (cases "odd (length s)")
    case True
    have "length s div 2 < length s" using pos by simp
    then have "c \<le> s ! (length s div 2)" by (rule mem)
    with True show ?thesis unfolding median_def Let_def s_def [symmetric] by simp
  next
    case False
    have a: "length s div 2 < length s" using pos by simp
    have b: "length s div 2 - 1 < length s" using pos by linarith
    have "c \<le> s ! (length s div 2)" "c \<le> s ! (length s div 2 - 1)" using a b mem by blast+
    with False show ?thesis unfolding median_def Let_def s_def [symmetric] by simp
  qed
qed

lemma analysis_intervals:
  assumes "analyze_earthquake_patterns now country_data = Inr (Some a)"
  shows "30 \<le> avg_interval_days a" "30 \<le> median_interval_days a" "0 \<le> recent_frequency a"
proof -
  from assms obtain sa tdf sig nm mc q where
    len: "3 \<le> length tdf" and tdf: "tdf = filter_time_diffs (diff_days (map time sig))"
    and a: "a = pattern_statistics now sig nm tdf mc sa q"
    by (elim analyze_SomeE) blast
  have ne: "map real_of_int tdf \<noteq> []" using len by auto
  have ge: "\<forall>x\<in>set (map real_of_int tdf). 30 \<le> x"
    using filter_time_diffs_ge_30 unfolding tdf by fastforce
  show "30 \<le> avg_interval_days a" unfolding a pattern_statistics_fields by (rule mean_ge [OF ne ge])
  show "30 \<le> median_interval_days a" unfolding a pattern_statistics_fields by (rule median_ge [OF ne ge])
  show "0 \<le> recent_frequency a" unfolding a pattern_statistics_fields by simp
qed

lemma weighted_interval_pos:
  assumes "30 \<le> median_interval_days a" "0 \<le> recent_frequency a"
  shows "0 < weighted_interval_of a"
  using assms unfolding weighted_interval_of_def Let_def
  by (auto intro!: add_pos_pos)

subsection \<open>Rounding to one decimal\<close>

lemma py_round_1_error: "\<bar>py_round x 1 - x\<bar> \<le> 0.05"
proof -
  define r where "r = real_of_int (round_half_even (x * 10))"
  have "r \<le> x * 10 + 1 / 2" "x * 10 - 1 / 2 \<le> r"
    unfolding r_def by (rule round_half_even_bounds)+
  then have "r / 10 - x \<le> 1 / 20" "- (1 / 20) \<le> r / 10 - x" by linarith+
  then have "\<bar>r / 10 - x\<bar> \<le> 1 / 20" by linarith
  then have "\<bar>r / 10 - x\<bar> \<le> 0.05" by simp
  then show ?thesis unfolding py_round_def r_def by simp
qed

lemma py_round_1_range:
  assumes "4 \<le> x" "x \<le> 9.5"
  shows "4 \<le> py_round x 1" "py_round x 1 \<le> 9.5"
proof -
  have "40 \<le> round_half_even (x * 10)"
    by (rule round_half_even_ge_int) (use assms in simp)
  then have "(40::real) \<le> of_int (round_half_even (x * 10))" by linarith
  then show "4 \<le> py_round x 1" unfolding py_round_def by simp
  have "round_half_even (x * 10) \<le> 95"
    by (rule round_half_even_le_int) (use assms in simp)
  then have "of_int (round_half_even (x * 10)) \<le> (95::real)" by linarith
  then show "py_round x 1 \<le> 9.5" unfolding py_round_def by simp
qed

lemma analysis_magnitudes:
  assumes "analyze_earthquake_patterns now country_data = Inr (Some a)"
  shows "4 \<le> min_magnitude a" "min_magnitude a \<le> max_magnitude a" "4 \<le> avg_magnitude a"
proof -
  define sig where "sig = sort_key time (filter (\<lambda>e. 4 \<le> magnitude e) country_data)"
  from assms obtain sa nm tdf mc q where
    len: "5 \<le> length (filter (\<lambda>e. 4 \<le> magnitude e) country_data)"
    and a: "a = pattern_statistics now sig nm tdf mc sa q"
    unfolding sig_def by (elim analyze_SomeE) blast
  have "length sig = length (filter (\<lambda>e. 4 \<le> magnitude e) country_data)"
    unfolding sig_def by simp
  with len have ne: "map magnitude sig \<noteq> []" by auto
  then have ne': "set (map magnitude sig) \<noteq> {}" by simp
  have ge: "\<forall>x\<in>set (map magnitude sig). 4 \<le> x" unfolding sig_def by auto
  show "4 \<le> min_magnitude a" unfolding a pattern_statistics_fields
    using ge ne' by (simp del: set_map)
  show "min_magnitude a \<le> max_magnitude a" unfolding a pattern_statistics_fields
    using ne' by (meson List.finite_set Max_in Min_le)
  show "4 \<le> avg_magnitude a" unfolding a pattern_statistics_fields
    by (rule mean_ge [OF ne ge])
qed

lemma predict_magnitude_clamped:
  "\<exists>raw. predict_magnitude a z
     = py_round (max (max 4.0 (min_magnitude a)) (min raw (min (max_magnitude a + 0.5) 9.5))) 1"
  unfolding predict_magnitude_def Let_def by (rule exI) (rule refl)

subsection \<open>The fallback test of the outlier filter\<close>

lemma fallback_condition:
  "(real k < max 3 (real n * 0.5)) = (k < 3 \<or> 2 * k < n)"
  by (auto simp: less_max_iff_disj)

subsection \<open>Deviations, peaks and seasonal sums\<close>

lemma std_nonneg: "0 \<le> std xs"
proof -
  have "0 \<le> sum_list (map (\<lambda>x. (x - mean xs) ^ 2) xs)"
    by (rule sum_list_nonneg) auto
  moreover have "sum_list (map (\<lambda>x. (x - mean xs) ^ 2) xs) = 0" if "xs = []"
    using that by simp
  ultimately have "0 \<le> sum_list (map (\<lambda>x. (x - mean xs) ^ 2) xs) / (real (length xs) - 1)"
    by (cases xs) (auto intro!: divide_nonneg_nonneg)
  then show ?thesis unfolding std_def by (rule real_sqrt_ge_zero)
qed

lemma max_by_value_mem: "xs \<noteq> [] \<Longrightarrow> max_by_value xs \<in> set xs"
  by (induction xs rule: max_by_value.induct) (auto simp: Let_def)

lemma snd_le_sum_list: "kv \<in> set xs \<Longrightarrow> snd kv \<le> sum_list (map snd xs)"
  for kv :: "string \<times> nat"
  by (induction xs) auto

lemma seasonal_sums_nonempty: "seasonal_sums mc = Some sa \<Longrightarrow> sa \<noteq> []"
  unfolding seasonal_sums_def by (auto split: option.splits)

subsection \<open>The steady catalog: twelve events, 31 days apart, of magnitude 4.04\<close>

lemma steady_length: "length steady_catalog = 12"
  by (simp add: steady_catalog_def)

lemma steady_significant: "filter (\<lambda>e. 4 \<le> magnitude e) steady_catalog = steady_catalog"
  by (simp add: steady_catalog_def quake_def)

lemma steady_major: "filter (\<lambda>e. 5 \<le> magnitude e) steady_catalog = []"
  by (simp add: steady_catalog_def quake_def)

lemma steady_sorted: "sort_key time steady_catalog = steady_catalog"
  by (rule sort_key_id_if_sorted) (simp add: steady_catalog_def quake_def)

lemma steady_diffs: "diff_days (map time steady_catalog) = intervals_31"
  by (simp add: steady_catalog_def quake_def days_def ns_per_day_def intervals_31_def)

lemma intervals_31_iqr: "iqr_filter intervals_31 = intervals_31"
  by (simp add: iqr_filter_def quantile_def intervals_31_def)

lemma intervals_31_filtered: "filter_time_diffs intervals_31 = intervals_31"
  unfolding filter_time_diffs_def intervals_31_iqr Let_def by (simp add: intervals_31_def)

lemma steady_monthly: "value_counts_sorted (map month steady_catalog) = monthly_even"
  by (simp add: value_counts_sorted_def steady_catalog_def quake_def monthly_even_def)

lemma monthly_even_sums: "seasonal_sums monthly_even = Some seasons_even"
  by (simp add: seasonal_sums_def monthly_even_def seasons_even_def)

lemma steady_gates:
  "analyze_earthquake_patterns now steady_catalog =
     Inr (Some (pattern_statistics now steady_catalog 0 intervals_31 monthly_even seasons_even
                  (assess_data_quality now steady_catalog)))"
  unfolding analyze_earthquake_patterns_def Let_def steady_significant steady_major steady_sorted
    steady_diffs intervals_31_filtered steady_monthly monthly_even_sums
  by (simp add: steady_length intervals_31_def)

lemma now_2050_ns: "to_ns now_2050 = 2524651200000000000"
  by (simp add: now_2050_def to_ns_def ymd2ord_def days_before_year_def days_before_month_def
      is_leap_def epoch_ordinal_def ns_per_day_def)

lemma steady_times:
  "Max (set (map time steady_catalog)) = 1607299200000000000"
  "Min (set (map time steady_catalog)) = 1577836800000000000"
  by (simp_all add: steady_catalog_def quake_def)

lemma steady_magnitudes:
  "Max (set (map magnitude steady_catalog)) = 4.04"
  "Min (set (map magnitude steady_catalog)) = 4.04"
  "mean (map magnitude steady_catalog) = 4.04"
  "std (map magnitude steady_catalog) = 0"
  by (simp_all add: steady_catalog_def quake_def mean_def std_def)

lemma steady_depths:
  "mean (map depth steady_catalog) = 10"
  "std (map depth steady_catalog) = 0"
  "length (filter (\<lambda>e. depth e < 70) steady_catalog) = 12"
  "length (filter (\<lambda>e. 70 \<le> depth e) steady_catalog) = 0"
  by (simp_all add: steady_catalog_def quake_def mean_def std_def)

lemma steady_quality_2050: "assess_data_quality now_2050 steady_catalog = 35"
  unfolding assess_data_quality_def Let_def now_2050_ns steady_times steady_magnitudes steady_length
  by (simp add: days_def ns_per_day_def)

lemma intervals_31_stats:
  "mean (map real_of_int intervals_31) = 31"
  "median (map real_of_int intervals_31) = 31"
  "std (map real_of_int intervals_31) = 0"
  by (simp_all add: mean_def median_def std_def intervals_31_def)

lemma monthly_even_stats:
  "mean (map (\<lambda>kc. real (snd kc)) monthly_even) = 1"
  "std (map (\<lambda>kc. real (snd kc)) monthly_even) = 0"
  "length monthly_even = 12"
  by (simp_all add: mean_def std_def monthly_even_def)

lemma seasons_even_peak:
  "max_by_value seasons_even = (''winter'', 3)" "sum_list (map snd seasons_even) = 12"
  by (simp_all add: seasons_even_def)

lemma steady_recent_2050:
  "filter (\<lambda>e. dt_year now_2050 - 5 \<le> year e) steady_catalog = []"
  "filter (\<lambda>e. dt_year now_2050 - 10 \<le> year e) steady_catalog = []"
  "filter (\<lambda>e. dt_year now_2050 - 20 \<le> year e) steady_catalog = []"
  by (simp_all add: steady_catalog_def quake_def now_2050_def)

lemma steady_last: "time (last steady_catalog) = 1607299200000000000"
  by (simp add: steady_catalog_def quake_def)

lemma steady_statistics_2050:
  "pattern_statistics now_2050 steady_catalog 0 intervals_31 monthly_even seasons_even 35
     = steady_analysis"
  unfolding pattern_statistics_def Let_def intervals_31_stats monthly_even_stats
    seasons_even_peak steady_recent_2050 steady_magnitudes steady_depths steady_last steady_length
  by (simp add: monthly_even_def steady_analysis_def)

lemma steady_analysis_2050:
  "analyze_earthquake_patterns now_2050 steady_catalog = Inr (Some steady_analysis)"
  by (simp add: steady_gates steady_quality_2050 steady_statistics_2050)

lemma steady_weighted: "weighted_interval_of steady_analysis = 31"
  by (simp add: weighted_interval_of_def steady_analysis_def)

lemma steady_projection:
  "project_future 2524651200000000000 1607299200000000000 31 = Inr 2529921600000000000"
  unfolding project_future_def Let_def
  by (simp add: days_def ns_per_day_def py_int_def timedelta_def round_half_even_def)

lemma steady_month: "month_of 2529921600000000000 = 3"
  by (simp add: month_of_def ord2ymd_def ns_per_day_def epoch_ordinal_def Let_def)

lemma steady_snap:
  "seasonal_snap now_2050 (peak_months steady_analysis) 31 2529921600000000000
     = Inr 2529921600000000000"
  by (simp add: seasonal_snap_def steady_month steady_analysis_def)

lemma steady_window:
  "uncertainty_window 2524651200000000000 31 0 31 2529921600000000000
     = (2529921600000000000, 2529385920000000000, 2530457280000000000)"
  unfolding uncertainty_window_def Let_def
  by (simp add: timedelta_def round_half_even_def)

lemma steady_age: "days (2524651200000000000 - 1607299200000000000) = 10617"
  by (simp add: days_def ns_per_day_def)

lemma steady_factors:
  "confidence_factors_of steady_analysis 10617 =
     [(''data_volume'', 6), (''pattern_regularity'', 15), (''data_recency'', 5),
      (''seasonal_pattern'', 5), (''geographic_consistency'', 15)]"
  by (simp add: confidence_factors_of_def steady_analysis_def monthly_even_def)

lemma steady_penalties:
  "confidence_penalties_of steady_analysis 10617 =
     [(''sparse_data'', - 10), (''high_variability'', 0), (''outdated_data'', - 15)]"
  by (simp add: confidence_penalties_of_def steady_analysis_def)

lemma steady_fields:
  "last_major_earthquake steady_analysis = Some 1607299200000000000"
  "peak_months steady_analysis = [1, 2, 3, 4, 5, 6, 7, 8, 9, 10, 11, 12]"
  "std_interval_days steady_analysis = 0"
  "avg_interval_days steady_analysis = 31"
  "shallow_count steady_analysis = 12"
  "deep_count steady_analysis = 0"
  "peak_season steady_analysis = ''winter''"
  "total_earthquakes steady_analysis = 12"
  "major_earthquakes steady_analysis = 0"
  "data_quality_score steady_analysis = 35"
  "avg_magnitude steady_analysis = 4.04"
  "max_magnitude steady_analysis = 4.04"
  "min_magnitude steady_analysis = 4.04"
  "magnitude_std steady_analysis = 0"
  "magnitude_trend steady_analysis = 4.04"
  "median_interval_days steady_analysis = 31"
  "recent_frequency steady_analysis = 0"
  "recent_frequency_5yr steady_analysis = 0"
  "consistency_metrics steady_analysis =
     \<lparr>temporal_consistency = 0.8, magnitude_consistency = 0.8,
         depth_consistency = 1, seasonal_consistency = 0.25\<rparr>"
  by (simp_all add: steady_analysis_def)

lemma steady_magnitude: "predict_magnitude steady_analysis (- 3 / 2) = 4.0"
  unfolding predict_magnitude_def Let_def steady_fields
  by (simp add: py_round_def round_half_even_def)

lemma japan: "map_of COUNTRY_COORDS ''Japan''
   = Some \<lparr>lat_range = (24, 46), lon_range = (123, 146), name = ''Japan''\<rparr>"
  unfolding COUNTRY_COORDS_def by (simp only: map_of_Cons_code) simp

lemma steady_forecast_2050:
  "predict_next_earthquake now_2050 rng0 ''Japan'' (Some steady_analysis) = Inr (Some steady_forecast)"
  unfolding predict_next_earthquake_def Let_def now_2050_ns steady_weighted
  apply (simp only: steady_weighted steady_fields option.case sum.case steady_projection steady_snap [unfolded steady_fields] japan steady_age steady_factors steady_penalties steady_window steady_magnitude rng0_def draws.simps fst_conv snd_conv region.simps consistency.simps)
  apply (simp add: calculate_risk_level_def steady_forecast_def py_round_def round_half_even_def
      clamp_confidence_def)
  done

subsection \<open>Catalogs that fail a gate\<close>

lemma short_catalog_length: "length short_catalog < 10"
  by (simp add: short_catalog_def)

lemma minor_catalog_significant:
  "length (filter (\<lambda>e. 4 \<le> magnitude e) minor_catalog) < 5"
  by (simp add: minor_catalog_def steady_catalog_def quake_def)

lemma burst_significant: "filter (\<lambda>e. 4 \<le> magnitude e) burst_catalog = burst_catalog"
  by (simp add: burst_catalog_def quake_def)

lemma burst_sorted: "sort_key time burst_catalog = burst_catalog"
  by (rule sort_key_id_if_sorted) (simp add: burst_catalog_def quake_def)

lemma burst_diffs: "diff_days (map time burst_catalog) = [0, 0, 0, 0, 0, 0, 0, 0, 0]"
  by (simp add: burst_catalog_def quake_def days_def ns_per_day_def)

lemma burst_iqr: "iqr_filter [0, 0, 0, 0, 0, 0, 0, 0, 0] = []"
  by (simp add: iqr_filter_def quantile_def)

lemma burst_filtered: "filter_time_diffs [0, 0, 0, 0, 0, 0, 0, 0, 0] = []"
  unfolding filter_time_diffs_def burst_iqr Let_def by (simp add: fixed_filter_def)

lemma burst_intervals:
  "length (filter_time_diffs (diff_days (map time
     (sort_key time (filter (\<lambda>e. 4 \<le> magnitude e) burst_catalog))))) < 3"
  unfolding burst_significant burst_sorted burst_diffs burst_filtered by simp

subsection \<open>Four uneven intervals\<close>

lemma uneven_quantiles:
  "quantile (map real_of_int uneven_intervals) 0.25 = 77.5"
  "quantile (map real_of_int uneven_intervals) 0.75 = 325"
  by (simp_all add: quantile_def uneven_intervals_def)

lemma uneven_iqr: "iqr_filter uneven_intervals = [100, 100]"
  unfolding iqr_filter_def Let_def uneven_quantiles by (simp add: uneven_intervals_def)

lemma uneven_fixed: "fixed_filter uneven_intervals = [100, 100, 1000]"
  by (simp add: fixed_filter_def uneven_intervals_def)

lemma uneven_filtered: "filter_time_diffs uneven_intervals = [100, 100, 1000]"
  unfolding filter_time_diffs_def Let_def uneven_iqr uneven_fixed
  by (simp add: uneven_intervals_def)

lemma steady_consistency:
  "std_interval_days steady_analysis = 0 \<and> magnitude_std steady_analysis = 0
   \<and> temporal_consistency (consistency_metrics steady_analysis) = 0.8
   \<and> magnitude_consistency (consistency_metrics steady_analysis) = 0.8
   \<and> depth_consistency (consistency_metrics steady_analysis) = 1
   \<and> seasonal_consistency (consistency_metrics steady_analysis) = 0.25"
  by (simp add: steady_fields)

subsection \<open>The June catalog\<close>

lemma june_length: "length june_catalog = 12"
  by (simp add: june_catalog_def)

lemma june_significant: "filter (\<lambda>e. 4 \<le> magnitude e) june_catalog = june_catalog"
  by (simp add: june_catalog_def quake_def)

lemma june_sorted: "sort_key time june_catalog = june_catalog"
  by (rule sort_key_id_if_sorted) (simp add: june_catalog_def quake_def)

lemma june_diffs: "diff_days (map time june_catalog) = intervals_365"
  by (simp add: june_catalog_def quake_def days_def ns_per_day_def intervals_365_def)

lemma intervals_365_iqr: "iqr_filter intervals_365 = intervals_365"
  by (simp add: iqr_filter_def quantile_def intervals_365_def)

lemma intervals_365_filtered: "filter_time_diffs intervals_365 = intervals_365"
  unfolding filter_time_diffs_def intervals_365_iqr Let_def by (simp add: intervals_365_def)

lemma june_monthly: "value_counts_sorted (map month june_catalog) = [(6, 12)]"
  by (simp add: value_counts_sorted_def june_catalog_def quake_def)

lemma june_sums: "seasonal_sums [(6, 12)] = None"
  by (simp add: seasonal_sums_def)

subsection \<open>The paired catalog\<close>

lemma paired_length: "length paired_catalog = 12"
  by (simp add: paired_catalog_def)

lemma paired_significant: "filter (\<lambda>e. 4 \<le> magnitude e) paired_catalog = paired_catalog"
  by (simp add: paired_catalog_def quake_def)

lemma paired_major: "filter (\<lambda>e. 5 \<le> magnitude e) paired_catalog = paired_catalog"
  by (simp add: paired_catalog_def quake_def)

lemma paired_sorted: "sort_key time paired_catalog = paired_catalog"
  by (rule sort_key_id_if_sorted) (simp add: paired_catalog_def quake_def)

lemma paired_diff_days: "diff_days (map time paired_catalog) = paired_diffs"
  by (simp add: paired_catalog_def quake_def days_def ns_per_day_def paired_diffs_def)

lemma paired_quantiles:
  "quantile (map real_of_int paired_diffs) 0.25 = 1"
  "quantile (map real_of_int paired_diffs) 0.75 = 60"
  by (simp_all add: quantile_def paired_diffs_def)

lemma paired_iqr: "iqr_filter paired_diffs = [58, 60, 60, 60, 60]"
  unfolding iqr_filter_def Let_def paired_quantiles by (simp add: paired_diffs_def)

lemma paired_fixed: "fixed_filter paired_diffs = paired_intervals"
  by (simp add: fixed_filter_def paired_diffs_def paired_intervals_def)

lemma paired_filtered: "filter_time_diffs paired_diffs = paired_intervals"
  unfolding filter_time_diffs_def Let_def paired_iqr paired_fixed
  by (simp add: paired_diffs_def)

lemma paired_monthly: "value_counts_sorted (map month paired_catalog) = monthly_even"
  by (simp add: value_counts_sorted_def paired_catalog_def quake_def monthly_even_def)

lemma paired_analysis_2021:
  "analyze_earthquake_patterns now_2021 paired_catalog = Inr (Some paired_analysis)"
  unfolding analyze_earthquake_patterns_def Let_def paired_significant paired_major paired_sorted
    paired_diff_days paired_filtered paired_monthly monthly_even_sums paired_analysis_def
  by (simp add: paired_length paired_intervals_def)

lemma paired_mean: "mean (map real_of_int paired_intervals) = 1793 / 3"
  by (simp add: mean_def paired_intervals_def)

lemma paired_std: "1793 / 3 < std (map real_of_int paired_intervals)"
  unfolding std_def paired_mean
  by (rule real_less_rsqrt) (simp add: paired_intervals_def power2_eq_square)

subsection \<open>Claims\<close>

text \<open>
  C4. For every analysis that yields a forecast, every clock reading and every draw, the
  confidence percentage of the forecast, as returned after the sum of the five factors
  and the three penalties is clamped and rounded, lies between 35 and 85 inclusive.
\<close>

theorem confidence_percentage_range:
  assumes "predict_next_earthquake now rng country (Some a) = Inr (Some f)"
  shows "35 \<le> confidence_percentage f \<and> confidence_percentage f \<le> 85"
proof -
  from predict_SomeD(3) [OF assms] obtain t where
    c: "confidence_percentage f
          = round_half_even (clamp_confidence (confidence_factors_of a t) (confidence_penalties_of a t))"
    by blast
  have "35 \<le> round_half_even (clamp_confidence (confidence_factors_of a t) (confidence_penalties_of a t))"
    by (rule round_half_even_ge_int) (simp add: clamp_confidence_range)
  moreover have "round_half_even (clamp_confidence (confidence_factors_of a t) (confidence_penalties_of a t)) \<le> 85"
    by (rule round_half_even_le_int) (simp add: clamp_confidence_range)
  ultimately show ?thesis using c by simp
qed

theorem confidence_percentage_range_witness:
  "predict_next_earthquake now_2050 rng0 ''Japan'' (Some steady_analysis) = Inr (Some steady_forecast)
   \<and> 35 \<le> confidence_percentage steady_forecast \<and> confidence_percentage steady_forecast \<le> 85"
  using confidence_percentage_range [OF steady_forecast_2050] steady_forecast_2050 by simp

text \<open>
  C1. For every analysis returned by the analyzer that yields a forecast, for every clock
  reading \<open>now\<close> and every draw, the predicted date and both ends of the date range
  of the forecast are strictly after \<open>now\<close>: whatever the age of the last significant
  event, whether or not the estimate is advanced by whole intervals, snapped to a peak
  month or shifted with its window.
\<close>

theorem forecast_dates_in_future:
  assumes "analyze_earthquake_patterns now0 country_data = Inr (Some a)"
    and "predict_next_earthquake now rng country (Some a) = Inr (Some f)"
  shows "to_ns now < predicted_date f
       \<and> to_ns now < fst (date_range f) \<and> to_ns now < snd (date_range f)"
proof -
  have w: "0 \<le> weighted_interval_of a"
    using weighted_interval_pos [OF analysis_intervals(2,3) [OF assms(1)]] by simp
  have avg: "0 < avg_interval_days a"
    using analysis_intervals(1) [OF assms(1)] by simp
  from predict_SomeD(1) [OF assms(2)] obtain e where
    d: "predicted_date f = fst (uncertainty_window (to_ns now) (weighted_interval_of a)
          (std_interval_days a) (avg_interval_days a) e)"
    and r: "date_range f = snd (uncertainty_window (to_ns now) (weighted_interval_of a)
          (std_interval_days a) (avg_interval_days a) e)"
    by blast
  note win = uncertainty_window_future [OF w avg, of "to_ns now" "std_interval_days a" e]
  show ?thesis unfolding d r using win by linarith
qed

theorem forecast_dates_in_future_witness:
  "analyze_earthquake_patterns now_2050 steady_catalog = Inr (Some steady_analysis)
   \<and> predict_next_earthquake now_2050 rng0 ''Japan'' (Some steady_analysis)
       = Inr (Some steady_forecast)
   \<and> to_ns now_2050 < predicted_date steady_forecast
   \<and> to_ns now_2050 < fst (date_range steady_forecast)
   \<and> to_ns now_2050 < snd (date_range steady_forecast)"
  using forecast_dates_in_future [OF steady_analysis_2050 steady_forecast_2050]
    steady_analysis_2050 steady_forecast_2050
  by simp

text \<open>
  C2. A region with fewer than 10 events, or with fewer than 5 events of magnitude at
  least 4.0, or with fewer than 3 intervals left after the removal of outliers, gets the
  one outcome ``insufficient data'' (\<open>None\<close>) from the analyzer, never a record.
\<close>

theorem insufficient_data_gates:
  assumes "length country_data < 10
     \<or> length (filter (\<lambda>e. 4 \<le> magnitude e) country_data) < 5
     \<or> length (filter_time_diffs (diff_days (map time
          (sort_key time (filter (\<lambda>e. 4 \<le> magnitude e) country_data))))) < 3"
  shows "analyze_earthquake_patterns now country_data = Inr None"
  using assms unfolding analyze_earthquake_patterns_def Let_def by auto

theorem insufficient_data_gates_witness:
  "analyze_earthquake_patterns now_2021 short_catalog = Inr None
   \<and> analyze_earthquake_patterns now_2021 minor_catalog = Inr None
   \<and> analyze_earthquake_patterns now_2021 burst_catalog = Inr None"
  using insufficient_data_gates [of short_catalog now_2021]
    insufficient_data_gates [of minor_catalog now_2021]
    insufficient_data_gates [of burst_catalog now_2021]
    short_catalog_length minor_catalog_significant burst_intervals
  by blast

text \<open>
  C3, as the code has it. The magnitude is clamped to
  \<open>[max(4.0, min_magnitude), min(max_magnitude + 0.5, 9.5)]\<close> and rounded to one decimal
  afterwards. For every analysis returned by the analyzer whose smallest magnitude is at
  most 9.5, and every draw of the noise, the magnitude of the forecast is within 0.05
  of that interval, and within \<open>[4.0, 9.5]\<close>.
\<close>

theorem predicted_magnitude_near_range:
  assumes "analyze_earthquake_patterns now0 country_data = Inr (Some a)"
    and "predict_next_earthquake now rng country (Some a) = Inr (Some f)"
    and "min_magnitude a \<le> 9.5"
  shows "max 4 (min_magnitude a) - 0.05 \<le> predicted_magnitude f
       \<and> predicted_magnitude f \<le> min (max_magnitude a + 0.5) 9.5 + 0.05
       \<and> 4 \<le> predicted_magnitude f \<and> predicted_magnitude f \<le> 9.5"
proof -
  note m = analysis_magnitudes [OF assms(1)]
  define lo where "lo = max 4.0 (min_magnitude a)"
  define hi where "hi = min (max_magnitude a + 0.5) 9.5"
  have lo: "lo = min_magnitude a" using m(1) unfolding lo_def by simp
  have "hi \<le> 9.5" unfolding hi_def by (rule min.cobounded2)
  then have hi1: "hi \<le> 19 / 2" by simp
  have hi2: "lo \<le> hi" using m(2) assms(3) unfolding lo hi_def by simp
  have lo4: "4 \<le> lo" using m(1) unfolding lo by simp
  from predict_magnitude_clamped [of a "normal_draw rng"] obtain raw where
    "predict_magnitude a (normal_draw rng) = py_round (max lo (min raw hi)) 1"
    unfolding lo_def hi_def by blast
  then have p: "predicted_magnitude f = py_round (max lo (min raw hi)) 1"
    using predict_SomeD(2) [OF assms(2)] by simp
  define c where "c = max lo (min raw hi)"
  have c: "lo \<le> c" "c \<le> hi" using hi2 unfolding c_def by simp_all
  have e: "\<bar>py_round c 1 - c\<bar> \<le> 1 / 20" using py_round_1_error [of c] by simp
  have "4 \<le> c" "c \<le> 9.5" using c lo4 hi1 by simp_all
  then have r: "4 \<le> py_round c 1" "py_round c 1 \<le> 19 / 2"
    using py_round_1_range [of c] by simp_all
  have 1: "lo - 1 / 20 \<le> py_round c 1" using e c by linarith
  have 2: "py_round c 1 \<le> hi + 1 / 20" using e c by linarith
  have "max 4 (min_magnitude a) = lo" unfolding lo_def by simp
  moreover have "min (max_magnitude a + 0.5) 9.5 = hi" unfolding hi_def by simp
  ultimately show ?thesis
    unfolding p c_def [symmetric] using 1 2 r by simp
qed

theorem predicted_magnitude_near_range_witness:
  "analyze_earthquake_patterns now_2050 steady_catalog = Inr (Some steady_analysis)
   \<and> predict_next_earthquake now_2050 rng0 ''Japan'' (Some steady_analysis)
       = Inr (Some steady_forecast)
   \<and> min_magnitude steady_analysis \<le> 9.5
   \<and> max 4 (min_magnitude steady_analysis) - 0.05 \<le> predicted_magnitude steady_forecast
   \<and> predicted_magnitude steady_forecast \<le> min (max_magnitude steady_analysis + 0.5) 9.5 + 0.05
   \<and> 4 \<le> predicted_magnitude steady_forecast \<and> predicted_magnitude steady_forecast \<le> 9.5"
proof -
  have m: "min_magnitude steady_analysis \<le> 9.5" by (simp add: steady_fields)
  show ?thesis
    using predicted_magnitude_near_range [OF steady_analysis_2050 steady_forecast_2050 m]
      steady_analysis_2050 steady_forecast_2050 m
    by blast
qed

text \<open>
  C3, as stated, fails: the rounding comes after the clamp. On the steady catalog the
  smallest magnitude is 4.04, the clamped value is 4.04 and the forecast reports 4.0,
  below the lower end of the interval.
\<close>

theorem predicted_magnitude_counterexample:
  "analyze_earthquake_patterns now_2050 steady_catalog = Inr (Some steady_analysis)
   \<and> predict_next_earthquake now_2050 rng0 ''Japan'' (Some steady_analysis)
       = Inr (Some steady_forecast)
   \<and> predicted_magnitude steady_forecast < max 4 (min_magnitude steady_analysis)"
proof -
  have "predicted_magnitude steady_forecast = 4" by (simp add: steady_forecast_def)
  moreover have "max 4 (min_magnitude steady_analysis) = 4.04" by (simp add: steady_fields)
  ultimately have "predicted_magnitude steady_forecast < max 4 (min_magnitude steady_analysis)"
    by simp
  then show ?thesis using steady_analysis_2050 steady_forecast_2050 by blast
qed

text \<open>
  C6, as the code has it. With at least 4 intervals, the analyzer keeps the intervals
  inside the interquartile bounds \<open>Q1 - 1.5 IQR\<close> (at least 30 days) and
  \<open>Q3 + 1.5 IQR\<close> (at most 7300 days); it falls back to the intervals between 30 and
  3650 days exactly when fewer than 3, or fewer than half, of the intervals are kept, and
  returns the kept intervals otherwise.
\<close>

theorem outlier_filter_rule:
  assumes "4 \<le> length time_diffs"
  shows "filter_time_diffs time_diffs
           = (if length (iqr_filter time_diffs) < 3
                 \<or> 2 * length (iqr_filter time_diffs) < length time_diffs
              then fixed_filter time_diffs else iqr_filter time_diffs)
       \<and> iqr_filter time_diffs
           = filter (\<lambda>d. max 30 (quantile (map real_of_int time_diffs) 0.25
                               - 1.5 * (quantile (map real_of_int time_diffs) 0.75
                                        - quantile (map real_of_int time_diffs) 0.25))
                           \<le> real_of_int d
                       \<and> real_of_int d
                           \<le> min 7300 (quantile (map real_of_int time_diffs) 0.75
                               + 1.5 * (quantile (map real_of_int time_diffs) 0.75
                                        - quantile (map real_of_int time_diffs) 0.25)))
               time_diffs
       \<and> fixed_filter time_diffs = filter (\<lambda>d. 30 \<le> d \<and> d \<le> 3650) time_diffs"
proof -
  have "3 < length time_diffs" using assms by simp
  then have "filter_time_diffs time_diffs
           = (if length (iqr_filter time_diffs) < 3
                 \<or> 2 * length (iqr_filter time_diffs) < length time_diffs
              then fixed_filter time_diffs else iqr_filter time_diffs)"
    unfolding filter_time_diffs_def Let_def fallback_condition by simp
  moreover have "iqr_filter time_diffs
           = filter (\<lambda>d. max 30 (quantile (map real_of_int time_diffs) 0.25
                               - 1.5 * (quantile (map real_of_int time_diffs) 0.75
                                        - quantile (map real_of_int time_diffs) 0.25))
                           \<le> real_of_int d
                       \<and> real_of_int d
                           \<le> min 7300 (quantile (map real_of_int time_diffs) 0.75
                               + 1.5 * (quantile (map real_of_int time_diffs) 0.75
                                        - quantile (map real_of_int time_diffs) 0.25)))
               time_diffs"
    unfolding iqr_filter_def Let_def by (rule refl)
  moreover have "fixed_filter time_diffs = filter (\<lambda>d. 30 \<le> d \<and> d \<le> 3650) time_diffs"
    by (rule fixed_filter_def)
  ultimately show ?thesis by blast
qed

theorem outlier_filter_rule_witness:
  "4 \<le> length uneven_intervals
   \<and> iqr_filter uneven_intervals = [100, 100]
   \<and> fixed_filter uneven_intervals = [100, 100, 1000]
   \<and> filter_time_diffs uneven_intervals = [100, 100, 1000]"
proof -
  have l: "4 \<le> length uneven_intervals" by (simp add: uneven_intervals_def)
  from outlier_filter_rule [OF l]
  have "filter_time_diffs uneven_intervals
           = (if length (iqr_filter uneven_intervals) < 3
                 \<or> 2 * length (iqr_filter uneven_intervals) < length uneven_intervals
              then fixed_filter uneven_intervals else iqr_filter uneven_intervals)"
    by (rule conjunct1)
  then have "filter_time_diffs uneven_intervals = [100, 100, 1000]"
    unfolding uneven_iqr uneven_fixed by simp
  with l uneven_iqr uneven_fixed show ?thesis by blast
qed

text \<open>
  C6, as stated, fails: of the four intervals 10, 100, 100, 1000 the interquartile bounds
  remove two, which is not more than half, and the analyzer falls back all the same,
  because fewer than 3 intervals are left.
\<close>

theorem outlier_filter_counterexample:
  "4 \<le> length uneven_intervals
   \<and> \<not> real (length uneven_intervals) / 2
         < real (length uneven_intervals - length (iqr_filter uneven_intervals))
   \<and> filter_time_diffs uneven_intervals = fixed_filter uneven_intervals
   \<and> filter_time_diffs uneven_intervals \<noteq> iqr_filter uneven_intervals"
  unfolding uneven_filtered uneven_iqr uneven_fixed by (simp add: uneven_intervals_def)

text \<open>
  C5. The claim is that every region that passes the gates gets a record, without an
  exception, the seasonal sums being defined for every monthly histogram. The code
  selects the months of a season by label from a histogram that holds only the months
  that occur: on twelve significant events, one year apart, all in June, every gate is
  passed and the analyzer raises \<open>KeyError\<close>, at any clock reading.
\<close>

theorem june_catalog_raises:
  "analyze_earthquake_patterns now june_catalog = Inl KeyError"
  unfolding analyze_earthquake_patterns_def Let_def june_significant june_sorted june_diffs
    intervals_365_filtered june_monthly june_sums
  by (simp add: june_length intervals_365_def)

text \<open>
  C9, as the code has it. For every record the analyzer returns: the temporal metric is
  0.8 when the deviation of the intervals is zero and \<open>1 - std/mean\<close> otherwise, and is
  at most 1; the magnitude metric likewise; the depth and seasonal metrics lie in
  \<open>[0, 1]\<close>. No lower bound holds for the temporal and magnitude metrics.
\<close>

theorem consistency_metrics_range:
  assumes "analyze_earthquake_patterns now country_data = Inr (Some a)"
  shows "temporal_consistency (consistency_metrics a)
           = (if std_interval_days a = 0 then 0.8
              else 1 - std_interval_days a / avg_interval_days a)
       \<and> temporal_consistency (consistency_metrics a) \<le> 1
       \<and> magnitude_consistency (consistency_metrics a)
           = (if magnitude_std a = 0 then 0.8 else 1 - magnitude_std a / avg_magnitude a)
       \<and> magnitude_consistency (consistency_metrics a) \<le> 1
       \<and> 0 \<le> depth_consistency (consistency_metrics a)
       \<and> depth_consistency (consistency_metrics a) \<le> 1
       \<and> 0 \<le> seasonal_consistency (consistency_metrics a)
       \<and> seasonal_consistency (consistency_metrics a) \<le> 1"
proof -
  define sig where "sig = sort_key time (filter (\<lambda>e. 4 \<le> magnitude e) country_data)"
  from assms obtain sa nm tdf mc q where
    len: "5 \<le> length (filter (\<lambda>e. 4 \<le> magnitude e) country_data)"
    and sa: "seasonal_sums mc = Some sa"
    and a: "a = pattern_statistics now sig nm tdf mc sa q"
    unfolding sig_def by (elim analyze_SomeE) blast
  have avg: "0 < avg_interval_days a" using analysis_intervals(1) [OF assms] by simp
  have mag: "0 < avg_magnitude a" using analysis_magnitudes(3) [OF assms] by simp
  have s1: "0 \<le> std_interval_days a" unfolding a pattern_statistics_fields by (rule std_nonneg)
  have s2: "0 \<le> magnitude_std a" unfolding a pattern_statistics_fields by (rule std_nonneg)
  have t: "temporal_consistency (consistency_metrics a)
      = (if 0 < std_interval_days a then 1 - std_interval_days a / avg_interval_days a else 0.8)"
    unfolding a pattern_statistics_consistency pattern_statistics_fields by simp
  have m: "magnitude_consistency (consistency_metrics a)
      = (if 0 < magnitude_std a then 1 - magnitude_std a / avg_magnitude a else 0.8)"
    unfolding a pattern_statistics_consistency pattern_statistics_fields by simp
  have t1: "temporal_consistency (consistency_metrics a)
           = (if std_interval_days a = 0 then 0.8
              else 1 - std_interval_days a / avg_interval_days a)"
    unfolding t using s1 by auto
  have t2: "temporal_consistency (consistency_metrics a) \<le> 1"
    unfolding t using s1 avg by simp
  have m1: "magnitude_consistency (consistency_metrics a)
           = (if magnitude_std a = 0 then 0.8 else 1 - magnitude_std a / avg_magnitude a)"
    unfolding m using s2 by auto
  have m2: "magnitude_consistency (consistency_metrics a) \<le> 1"
    unfolding m using s2 mag by simp
  have "length sig = length (filter (\<lambda>e. 4 \<le> magnitude e) country_data)"
    unfolding sig_def by simp
  with len have n: "0 < length sig" by linarith
  have "length (filter (\<lambda>e. depth e < 70) sig) \<le> length sig"
    "length (filter (\<lambda>e. 70 \<le> depth e) sig) \<le> length sig"
    by (rule length_filter_le)+
  then have "max (length (filter (\<lambda>e. depth e < 70) sig)) (length (filter (\<lambda>e. 70 \<le> depth e) sig))
      \<le> length sig" by simp
  then have d: "0 \<le> depth_consistency (consistency_metrics a)"
    "depth_consistency (consistency_metrics a) \<le> 1"
    unfolding a pattern_statistics_consistency using n by simp_all
  have "max_by_value sa \<in> set sa"
    by (rule max_by_value_mem) (rule seasonal_sums_nonempty [OF sa])
  then have le: "snd (max_by_value sa) \<le> sum_list (map snd sa)" by (rule snd_le_sum_list)
  have s: "0 \<le> seasonal_consistency (consistency_metrics a)"
    "seasonal_consistency (consistency_metrics a) \<le> 1"
    unfolding a pattern_statistics_consistency using le by simp_all
  from t1 t2 m1 m2 d s show ?thesis by blast
qed

theorem consistency_metrics_range_witness:
  "analyze_earthquake_patterns now_2050 steady_catalog = Inr (Some steady_analysis)
   \<and> std_interval_days steady_analysis = 0 \<and> magnitude_std steady_analysis = 0
   \<and> temporal_consistency (consistency_metrics steady_analysis) = 0.8
   \<and> magnitude_consistency (consistency_metrics steady_analysis) = 0.8
   \<and> depth_consistency (consistency_metrics steady_analysis) = 1
   \<and> seasonal_consistency (consistency_metrics steady_analysis) = 0.25"
  using consistency_metrics_range [OF steady_analysis_2050] steady_analysis_2050
    steady_consistency
  by blast

text \<open>
  C9, as stated, fails: nothing clamps \<open>1 - std/mean\<close>. On the paired catalog the
  intervals left by the filter are 58, 60, 60, 60, 60 and 3288 days; their deviation
  exceeds their mean and the temporal metric is negative.
\<close>

theorem consistency_metrics_counterexample:
  "analyze_earthquake_patterns now_2021 paired_catalog = Inr (Some paired_analysis)
   \<and> temporal_consistency (consistency_metrics paired_analysis) < 0"
proof -
  have "temporal_consistency (consistency_metrics paired_analysis)
      = 1 - std (map real_of_int paired_intervals) / (1793 / 3)"
    unfolding paired_analysis_def pattern_statistics_consistency paired_mean
    using paired_std by simp
  moreover have "1 < std (map real_of_int paired_intervals) / (1793 / 3)"
    using paired_std by simp
  ultimately have "temporal_consistency (consistency_metrics paired_analysis) < 0" by simp
  with paired_analysis_2021 show ?thesis by blast
qed

end
